theory Spec2Isabelle
  imports Complex_Main
begin

section \<open>Python values and exceptions\<close>

text \<open>
  The values a configuration holds, and the exceptions the two source files can raise,
  as values. A computation that can raise returns \<open>py_error + 'a\<close> with \<open>Inl\<close> for
  the exception. A \<open>KeyError\<close> carries the key that was not found.
\<close>

datatype cval = VNone | VStr string | VInt int | VFloat real | VBool bool

datatype py_error =
    TypeError_missing "string list"
  | TypeError_too_many nat nat
  | TypeError_not_subscriptable
  | TypeError_not_callable
  | TypeError string
  | KeyError cval
  | AttributeError string
  | IndexError
  | ZeroDivisionError
  | RuntimeError string
  | ValueError string
  | SystemExit

text \<open>
  Binding of positional arguments to the parameters of a \<open>def\<close>. A parameter is its
  name and its default, if it has one. More arguments than parameters is a
  \<open>TypeError\<close> ("takes m positional arguments but k were given"); a parameter left
  without argument and without default is a \<open>TypeError\<close> that lists the missing names.
\<close>

fun required_of :: "(string \<times> 'v option) list \<Rightarrow> string list" where
  "required_of [] = []"
| "required_of ((p, None) # ps) = p # required_of ps"
| "required_of ((p, Some d) # ps) = required_of ps"

fun defaults_of :: "(string \<times> 'v option) list \<Rightarrow> (string \<times> 'v) list" where
  "defaults_of [] = []"
| "defaults_of ((p, None) # ps) = defaults_of ps"
| "defaults_of ((p, Some d) # ps) = (p, d) # defaults_of ps"

definition bind_args ::
  "(string \<times> 'v option) list \<Rightarrow> 'v list \<Rightarrow> py_error + (string \<times> 'v) list" where
  "bind_args params args =
     (if length params < length args
      then Inl (TypeError_too_many (length params) (length args))
      else let rest = drop (length args) params in
        if required_of rest \<noteq> [] then Inl (TypeError_missing (required_of rest))
        else Inr (zip (map fst params) args @ defaults_of rest))"

section \<open>losses.py\<close>

subsection \<open>The crop offsets\<close>

text \<open>
  \<open>int((768-h)/2)\<close>: Python 3's \<open>/\<close> is true division and \<open>int\<close> truncates toward
  zero. The quotient is taken in the rationals; the floating-point quotient of an
  integer by 2 is exact on every magnitude a canvas of 768 by 1024 can give.
\<close>

definition py_truediv :: "int \<Rightarrow> int \<Rightarrow> rat" where
  "py_truediv a b = of_int a / of_int b"

definition py_int :: "rat \<Rightarrow> int" where
  "py_int x = (if 0 \<le> x then \<lfloor>x\<rfloor> else \<lceil>x\<rceil>)"

text \<open>
  \<open>BCELoss._crop\<close> (losses.py, lines 18 to 23). \<open>transF.crop\<close> is torchvision's and is
  a parameter here; the call passes \<open>dw\<close> before \<open>dh\<close>.
\<close>

definition BCELoss_crop ::
  "('t \<Rightarrow> int \<Rightarrow> int \<Rightarrow> int \<Rightarrow> int \<Rightarrow> 't) \<Rightarrow> 't \<Rightarrow> int \<times> int \<Rightarrow> 't" where
  "BCELoss_crop crop img input_shape =
     (let h = fst input_shape; w = snd input_shape;
          dh = py_int (py_truediv (768 - h) 2);
          dw = py_int (py_truediv (1024 - w) 2)
      in crop img dw dh h w)"

text \<open>\<open>BCEDiceLoss._crop_single\<close> (losses.py, lines 59 to 64).\<close>

definition BCEDiceLoss_crop_single ::
  "('t \<Rightarrow> int \<Rightarrow> int \<Rightarrow> int \<Rightarrow> int \<Rightarrow> 't) \<Rightarrow> 't \<Rightarrow> int \<times> int \<Rightarrow> 't" where
  "BCEDiceLoss_crop_single crop img input_shape =
     (let h = fst input_shape; w = snd input_shape;
          dh = py_int (py_truediv (768 - h) 2);
          dw = py_int (py_truediv (1024 - w) 2)
      in crop img dw dh h w)"

subsection \<open>Sequences and tensors\<close>

definition py_then :: "py_error + 'a \<Rightarrow> ('a \<Rightarrow> py_error + 'b) \<Rightarrow> py_error + 'b" where
  "py_then m f = (case m of Inl e \<Rightarrow> Inl e | Inr a \<Rightarrow> f a)"

text \<open>\<open>xs[i]\<close> on a Python sequence, for an index that is not negative.\<close>

definition py_index :: "'a list \<Rightarrow> nat \<Rightarrow> py_error + 'a" where
  "py_index xs i = (if i < length xs then Inr (xs ! i) else Inl IndexError)"

text \<open>
  A \<open>for\<close> loop over a list of indices, threading the loop's variables as a state; an
  exception in the body ends the loop.
\<close>

fun for_each :: "'i list \<Rightarrow> ('i \<Rightarrow> 's \<Rightarrow> py_error + 's) \<Rightarrow> 's \<Rightarrow> py_error + 's" where
  "for_each [] body s = Inr s"
| "for_each (i # is) body s =
     (case body i s of Inl e \<Rightarrow> Inl e | Inr s' \<Rightarrow> for_each is body s')"

text \<open>
  The operations of torch and torchvision that \<open>BCEDiceLoss\<close> calls. They are not code of
  this repository and are parameters of the model. A tensor is a value of type \<open>'t\<close>;
  \<open>tensor_shape\<close> is its shape, \<open>tensor_index t i\<close> is \<open>t[i]\<close> for \<open>i\<close> below the leading
  dimension, \<open>tensor_row t\<close> lists the elements of \<open>t.reshape(1, -1)\<close>. Numbers are real
  numbers: sums and products are exact, rounding is not modelled. The two
  cross-entropy functions can raise (they reject operands of different sizes).
\<close>

record 't torch =
  tensor_shape :: "'t \<Rightarrow> nat list"
  tensor_index :: "'t \<Rightarrow> nat \<Rightarrow> 't"
  tensor_row :: "'t \<Rightarrow> real list"
  torch_softmax :: "'t \<Rightarrow> 't"
  torch_unsqueeze :: "'t \<Rightarrow> 't"
  torch_cat :: "'t \<Rightarrow> 't \<Rightarrow> 't"
  transF_crop :: "'t \<Rightarrow> int \<Rightarrow> int \<Rightarrow> int \<Rightarrow> int \<Rightarrow> 't"
  F_binary_cross_entropy :: "'t \<Rightarrow> 't \<Rightarrow> real option \<Rightarrow> py_error + real"
  F_binary_cross_entropy_with_logits :: "'t \<Rightarrow> 't \<Rightarrow> real option \<Rightarrow> py_error + real"

text \<open>
  What the attribute \<open>size\<close> of an object evaluates to. On a torch tensor it is a bound
  method, as line 91 of \<open>forward\<close> uses it: \<open>x.size(0)\<close> calls it, \<open>x.size[0]\<close>
  subscripts the method object itself, which Python refuses. (On an object whose
  \<open>size\<close> is a tuple it is the other way round.)
\<close>

datatype attribute = BoundMethod "int \<Rightarrow> py_error + int" | TupleValue "int list"

definition py_call :: "attribute \<Rightarrow> int \<Rightarrow> py_error + int" where
  "py_call a d = (case a of BoundMethod f \<Rightarrow> f d | TupleValue xs \<Rightarrow> Inl TypeError_not_callable)"

definition py_subscript :: "attribute \<Rightarrow> nat \<Rightarrow> py_error + int" where
  "py_subscript a i =
     (case a of BoundMethod f \<Rightarrow> Inl TypeError_not_subscriptable
      | TupleValue xs \<Rightarrow> py_index xs i)"

definition tensor_size :: "'t torch \<Rightarrow> 't \<Rightarrow> attribute" where
  "tensor_size T t =
     BoundMethod (\<lambda>d.
       let sh = tensor_shape T t; r = int (length sh);
           k = (if d < 0 then d + r else d)
       in if 0 \<le> k \<and> k < r then Inr (int (sh ! nat k)) else Inl IndexError)"

text \<open>\<open>t[i]\<close> on a tensor.\<close>

definition tensor_getitem :: "'t torch \<Rightarrow> 't \<Rightarrow> nat \<Rightarrow> py_error + 't" where
  "tensor_getitem T t i =
     (case tensor_shape T t of [] \<Rightarrow> Inl IndexError
      | d # sh \<Rightarrow> if i < d then Inr (tensor_index T t i) else Inl IndexError)"

text \<open>
  \<open>a * b\<close> on two tensors of shape \<open>(1, N)\<close> and \<open>(1, M)\<close>, as their rows: elementwise,
  a row of one element is broadcast, other lengths do not fit.
\<close>

definition mul_rows :: "real list \<Rightarrow> real list \<Rightarrow> py_error + real list" where
  "mul_rows xs ys =
     (if length xs = length ys then Inr (map2 (*) xs ys)
      else if length xs = 1 then Inr (map ((*) (hd xs)) ys)
      else if length ys = 1 then Inr (map (\<lambda>x. x * hd ys) xs)
      else Inl (RuntimeError ''The size of tensor a must match the size of tensor b''))"

text \<open>
  Division of one tensor by another raises nothing: where the divisor is zero the
  quotient is infinite or not a number, which is \<open>None\<close> here.
\<close>

definition tensor_div :: "real \<Rightarrow> real \<Rightarrow> real option" where
  "tensor_div a b = (if b = 0 then None else Some (a / b))"

subsection \<open>BCEDiceLoss\<close>

record BCEDiceLoss_obj =
  self_crop :: bool
  self_crop_batch :: bool
  self_softmax :: bool

text \<open>
  \<open>BCEDiceLoss.__init__(self, softmax, crop = True, crop_batch = False)\<close> (lines 52
  to 57), called with positional arguments.
\<close>

definition BCEDiceLoss_init_params :: "(string \<times> bool option) list" where
  "BCEDiceLoss_init_params =
     [(''softmax'', None), (''crop'', Some True), (''crop_batch'', Some False)]"

definition arg :: "(string \<times> 'v) list \<Rightarrow> string \<Rightarrow> 'v" where
  "arg env p = the (map_of env p)"

definition BCEDiceLoss_init :: "bool list \<Rightarrow> py_error + BCEDiceLoss_obj" where
  "BCEDiceLoss_init args =
     py_then (bind_args BCEDiceLoss_init_params args) (\<lambda>env.
       Inr \<lparr>self_crop = arg env ''crop'', self_crop_batch = arg env ''crop_batch'',
            self_softmax = arg env ''softmax''\<rparr>)"

text \<open>
  \<open>BCEDiceLoss._crop_batch\<close> (lines 66 to 80). Line 67 reads \<open>img.size[0]\<close>. The
  \<open>return\<close> of line 80 stands inside the body of the loop, so the body runs for the
  first index at most; when the range is empty the function ends without a \<open>return\<close>
  and its value is \<open>None\<close>.
\<close>

definition crop_batch_loop ::
  "'t torch \<Rightarrow> 't \<Rightarrow> int list list \<Rightarrow> 't \<Rightarrow> nat list \<Rightarrow> py_error + 't option" where
  "crop_batch_loop T img input_shape cropped indices =
     (case indices of
        [] \<Rightarrow> Inr None
      | i # rest \<Rightarrow>
          py_then (py_index input_shape 0) (\<lambda>hs. py_then (py_index hs i) (\<lambda>h.
          py_then (py_index input_shape 1) (\<lambda>ws. py_then (py_index ws i) (\<lambda>w.
            let dh = py_int (py_truediv (768 - h) 2);
                dw = py_int (py_truediv (1024 - w) 2)
            in py_then (tensor_getitem T img i) (\<lambda>imgi.
                 Inr (Some (torch_cat T cropped (transF_crop T imgi dw dh h w)))))))))"

definition crop_batch_from ::
  "'t torch \<Rightarrow> 't \<Rightarrow> int list list \<Rightarrow> int \<Rightarrow> py_error + 't option" where
  "crop_batch_from T img input_shape n =
     py_then (py_index input_shape 0) (\<lambda>hs. py_then (py_index hs 0) (\<lambda>h.
     py_then (py_index input_shape 1) (\<lambda>ws. py_then (py_index ws 0) (\<lambda>w.
       let dh = py_int (py_truediv (768 - h) 2);
           dw = py_int (py_truediv (1024 - w) 2)
       in py_then (tensor_getitem T img 0) (\<lambda>img0.
            crop_batch_loop T img input_shape (transF_crop T img0 dw dh h w) [1..<nat n])))))"

definition BCEDiceLoss_crop_batch ::
  "'t torch \<Rightarrow> 't \<Rightarrow> int list list \<Rightarrow> py_error + 't option" where
  "BCEDiceLoss_crop_batch T img input_shape =
     py_then (py_subscript (tensor_size T img) 0) (\<lambda>n. crop_batch_from T img input_shape n)"

text \<open>
  \<open>BCEDiceLoss.forward\<close> (lines 82 to 150). The loop variables of the two cropped
  branches are \<open>bce\<close>, \<open>intersection\<close>, \<open>sum_x\<close> and \<open>sum_target\<close>, in this order; \<open>x'\<close> and \<open>target'\<close> stand for the source's \<open>x_\<close> and \<open>target_\<close>.
\<close>

definition smooth :: real where
  "smooth = 1 / 100000"

definition softmax_body ::
  "'t torch \<Rightarrow> 't \<Rightarrow> 't \<Rightarrow> int list list \<Rightarrow> real list \<Rightarrow> nat
     \<Rightarrow> real \<times> real \<times> real \<times> real \<Rightarrow> py_error + real \<times> real \<times> real \<times> real" where
  "softmax_body T x target input_shape weights i acc =
     (case acc of (bce, intersection, sum_x, sum_target) \<Rightarrow>
       py_then (tensor_getitem T x i) (\<lambda>xi.
       py_then (py_index input_shape 0) (\<lambda>hs. py_then (py_index hs i) (\<lambda>h.
       py_then (py_index input_shape 1) (\<lambda>ws. py_then (py_index ws i) (\<lambda>w.
       py_then (tensor_getitem T target i) (\<lambda>ti.
         let xc = BCEDiceLoss_crop_single (transF_crop T) (torch_softmax T xi) (h, w);
             target' = BCEDiceLoss_crop_single (transF_crop T) ti (h, w);
             x' = torch_unsqueeze T xc
         in py_then (py_index weights i) (\<lambda>wi.
            py_then (F_binary_cross_entropy T x' target' (Some wi)) (\<lambda>b.
            py_then (mul_rows (tensor_row T x') (tensor_row T target')) (\<lambda>prod.
              Inr (bce + b, intersection + sum_list prod,
                   sum_x + sum_list (tensor_row T x'),
                   sum_target + sum_list (tensor_row T target'))))))))))))"

definition logits_body ::
  "'t torch \<Rightarrow> 't \<Rightarrow> 't \<Rightarrow> int list list \<Rightarrow> nat
     \<Rightarrow> real \<times> real \<times> real \<times> real \<Rightarrow> py_error + real \<times> real \<times> real \<times> real" where
  "logits_body T x target input_shape i acc =
     (case acc of (bce, intersection, sum_x, sum_target) \<Rightarrow>
       py_then (tensor_getitem T x i) (\<lambda>xi.
       py_then (py_index input_shape 0) (\<lambda>hs. py_then (py_index hs i) (\<lambda>h.
       py_then (py_index input_shape 1) (\<lambda>ws. py_then (py_index ws i) (\<lambda>w.
       py_then (tensor_getitem T target i) (\<lambda>ti.
         let x' = BCEDiceLoss_crop_single (transF_crop T) xi (h, w);
             target' = BCEDiceLoss_crop_single (transF_crop T) ti (h, w)
         in py_then (F_binary_cross_entropy_with_logits T x' target' None) (\<lambda>b.
            py_then (mul_rows (tensor_row T x') (tensor_row T target')) (\<lambda>prod.
              Inr (bce + b, intersection + sum_list prod,
                   sum_x + sum_list (tensor_row T x'),
                   sum_target + sum_list (tensor_row T target')))))))))))"

text \<open>
  Lines 109 to 113 (and 131 to 135). With an empty batch the four variables are still
  the Python numbers they were initialised to, \<open>dice\<close> is the float \<open>1.0\<close> and
  \<open>(1 - dice) / n\<close> divides a float by the integer zero. With one sample or more they
  are tensors.
\<close>

definition dice_loss :: "nat \<Rightarrow> real \<times> real \<times> real \<times> real \<Rightarrow> py_error + real option" where
  "dice_loss n acc =
     (case acc of (bce, intersection, sum_x, sum_target) \<Rightarrow>
       if n = 0 then Inl ZeroDivisionError
       else Inr (case tensor_div (intersection * 2 + smooth) (sum_x + sum_target + smooth) of
                   None \<Rightarrow> None
                 | Some dice \<Rightarrow> Some (0.5 * bce + (1 - dice) / real n)))"

text \<open>
  Lines 138 to 150, the computation without cropping, are the parameter \<open>uncropped\<close>:
  it receives the values of \<open>x\<close> and \<open>target\<close> at line 138, which are \<open>None\<close> when
  \<open>_crop_batch\<close> returned nothing.
\<close>

definition BCEDiceLoss_forward ::
  "'t torch \<Rightarrow> ('t option \<Rightarrow> 't option \<Rightarrow> py_error + real option) \<Rightarrow> BCEDiceLoss_obj
     \<Rightarrow> 't \<Rightarrow> 't \<Rightarrow> int list list \<Rightarrow> real list \<Rightarrow> py_error + real option" where
  "BCEDiceLoss_forward T uncropped self x target input_shape weights =
     py_then (py_call (tensor_size T x) 0) (\<lambda>n.
       if self_crop self then
         if self_softmax self then
           py_then (for_each [0..<nat n] (softmax_body T x target input_shape weights) (0, 0, 0, 0))
             (dice_loss (nat n))
         else if self_crop_batch self then
           py_then (BCEDiceLoss_crop_batch T x input_shape) (\<lambda>x'.
           py_then (BCEDiceLoss_crop_batch T target input_shape) (\<lambda>target'.
             uncropped x' target'))
         else
           py_then (for_each [0..<nat n] (logits_body T x target input_shape) (0, 0, 0, 0))
             (dice_loss (nat n))
       else uncropped (Some x) (Some target))"

subsection \<open>The signatures of the three losses\<close>

text \<open>\<open>losses.__all__\<close> (line 8).\<close>

datatype loss_name = BCEDiceLoss | BCELoss | LovaszHingeLoss

text \<open>The parameters of each \<open>forward\<close> after \<open>self\<close> (lines 24, 82 and 156).\<close>

definition forward_params :: "loss_name \<Rightarrow> (string \<times> 'v option) list" where
  "forward_params c =
     (case c of
        BCELoss \<Rightarrow> [(''predict'', None), (''target'', None), (''input_shape'', None),
                    (''weights'', None)]
      | BCEDiceLoss \<Rightarrow> [(''x'', None), (''target'', None), (''input_shape'', None),
                        (''weights'', None)]
      | LovaszHingeLoss \<Rightarrow> [(''input'', None), (''target'', None)])"

text \<open>
  Calling a criterion object calls its \<open>forward\<close> with the same arguments; \<open>body\<close>
  is what \<open>forward\<close> computes once its parameters are bound.
\<close>

definition criterion_call ::
  "(loss_name \<Rightarrow> (string \<times> 'v) list \<Rightarrow> py_error + real) \<Rightarrow> loss_name \<Rightarrow> 'v list
     \<Rightarrow> py_error + real" where
  "criterion_call body c args = py_then (bind_args (forward_params c) args) (body c)"

text \<open>
  Sample \<open>i\<close> of the prediction as the softmax branch hands it to the cross-entropy:
  the softmax over the channels, cropped at \<open>(dw, dh)\<close> to \<open>h\<close> by \<open>w\<close>, with a leading
  axis added; and sample \<open>i\<close> of the target, cropped. Names for the terms of the
  statements below, written out with the offsets.
\<close>

definition pred_crop :: "'t torch \<Rightarrow> 't \<Rightarrow> int list list \<Rightarrow> nat \<Rightarrow> 't" where
  "pred_crop T x input_shape i =
     torch_unsqueeze T
       (transF_crop T (torch_softmax T (tensor_index T x i))
          (py_int (py_truediv (1024 - input_shape ! 1 ! i) 2))
          (py_int (py_truediv (768 - input_shape ! 0 ! i) 2))
          (input_shape ! 0 ! i) (input_shape ! 1 ! i))"

definition target_crop :: "'t torch \<Rightarrow> 't \<Rightarrow> int list list \<Rightarrow> nat \<Rightarrow> 't" where
  "target_crop T target input_shape i =
     transF_crop T (tensor_index T target i)
       (py_int (py_truediv (1024 - input_shape ! 1 ! i) 2))
       (py_int (py_truediv (768 - input_shape ! 0 ! i) 2))
       (input_shape ! 0 ! i) (input_shape ! 1 ! i)"

subsection \<open>The tensor operations as torch defines them\<close>

text \<open>
  A tensor as its shape with its elements in row-major order, and the operations of
  the record above on it, after the documentation of torch and torchvision.
  \<open>transF.crop(img, top, left, height, width)\<close> takes from the last two axes the box of
  \<open>height\<close> rows from row \<open>top\<close> and \<open>width\<close> columns from column \<open>left\<close>; where the box
  leaves the image the elements are zero. The two cross-entropy functions raise
  \<open>ValueError\<close> when the sizes of input and target differ; the number they compute
  otherwise is a parameter.
\<close>

type_synonym shaped = "nat list \<times> real list"

definition shaped_index :: "shaped \<Rightarrow> nat \<Rightarrow> shaped" where
  "shaped_index t i =
     (let k = prod_list (tl (fst t)) in (tl (fst t), take k (drop (i * k) (snd t))))"

definition shaped_softmax :: "shaped \<Rightarrow> shaped" where
  "shaped_softmax t =
     (case fst t of
        [] \<Rightarrow> ([], map (\<lambda>v. 1) (snd t))
      | c # sh \<Rightarrow>
          (c # sh,
           map (\<lambda>j. exp (snd t ! j)
                     / sum_list (map (\<lambda>c'. exp (snd t ! (c' * prod_list sh + j mod prod_list sh)))
                                  [0..<c]))
               [0..<length (snd t)]))"

definition shaped_unsqueeze :: "shaped \<Rightarrow> shaped" where
  "shaped_unsqueeze t = (1 # fst t, snd t)"

definition shaped_cat :: "shaped \<Rightarrow> shaped \<Rightarrow> shaped" where
  "shaped_cat a b =
     (let ka = prod_list (tl (fst a)); kb = prod_list (tl (fst b))
      in (hd (fst a) # (fst a ! 1 + fst b ! 1) # drop 2 (fst a),
          concat (map (\<lambda>i. take ka (drop (i * ka) (snd a)) @ take kb (drop (i * kb) (snd b)))
                      [0..<hd (fst a)])))"

definition shaped_crop :: "shaped \<Rightarrow> int \<Rightarrow> int \<Rightarrow> int \<Rightarrow> int \<Rightarrow> shaped" where
  "shaped_crop t top_row left_col height width =
     (let r = length (fst t); lead = take (r - 2) (fst t);
          H = fst t ! (r - 2); W = fst t ! (r - 1);
          h = nat height; w = nat width
      in (lead @ [h, w],
          map (\<lambda>k. let p = k div (h * w); i = k mod (h * w) div w; j = k mod w;
                       row = top_row + int i; col = left_col + int j
                   in if 0 \<le> row \<and> row < int H \<and> 0 \<le> col \<and> col < int W
                      then snd t ! (p * (H * W) + nat row * W + nat col) else 0)
              [0..<prod_list lead * (h * w)]))"

definition shaped_bce ::
  "(real list \<Rightarrow> real list \<Rightarrow> real option \<Rightarrow> real) \<Rightarrow> shaped \<Rightarrow> shaped \<Rightarrow> real option
     \<Rightarrow> py_error + real" where
  "shaped_bce number input target weight =
     (if fst target \<noteq> fst input
      then Inl (ValueError ''Using a target size that is different to the input size'')
      else Inr (number (snd input) (snd target) weight))"

definition torch_model ::
  "(real list \<Rightarrow> real list \<Rightarrow> real option \<Rightarrow> real)
     \<Rightarrow> (real list \<Rightarrow> real list \<Rightarrow> real option \<Rightarrow> real) \<Rightarrow> shaped torch" where
  "torch_model bce bce_logits =
     \<lparr>tensor_shape = fst,
      tensor_index = shaped_index,
      tensor_row = snd,
      torch_softmax = shaped_softmax,
      torch_unsqueeze = shaped_unsqueeze,
      torch_cat = shaped_cat,
      transF_crop = shaped_crop,
      F_binary_cross_entropy = shaped_bce bce,
      F_binary_cross_entropy_with_logits = shaped_bce bce_logits\<rparr>"

text \<open>
  A one-channel canvas of 768 by 1024 whose element at row \<open>r\<close> and column \<open>c\<close> is the
  number \<open>1024 r + c\<close>; \<open>pixel t r c\<close> is the element at row \<open>r\<close> and column \<open>c\<close> of a
  one-channel image.
\<close>

definition canvas :: shaped where
  "canvas = ([1, 768, 1024], map real [0..<768 * 1024])"

definition pixel :: "shaped \<Rightarrow> nat \<Rightarrow> nat \<Rightarrow> real" where
  "pixel t r c = snd t ! (r * (fst t ! 2) + c)"

section \<open>Unet_/main.py\<close>

subsection \<open>The configuration\<close>

text \<open>
  \<open>config\<close> is the dictionary \<open>vars(parse_args())\<close>: a map from names to values.
  \<open>d[k]\<close> raises \<open>KeyError\<close> on a key that is not there.
\<close>

type_synonym config = "string \<rightharpoonup> cval"

definition dict_get :: "(string \<rightharpoonup> 'v) \<Rightarrow> string \<Rightarrow> py_error + 'v" where
  "dict_get d k = (case d k of None \<Rightarrow> Inl (KeyError (VStr k)) | Some v \<Rightarrow> Inr v)"

definition truthy :: "cval \<Rightarrow> bool" where
  "truthy v =
     (case v of VNone \<Rightarrow> False | VStr s \<Rightarrow> s \<noteq> [] | VInt i \<Rightarrow> i \<noteq> 0
      | VFloat r \<Rightarrow> r \<noteq> 0 | VBool b \<Rightarrow> b)"

subsection \<open>parse_args\<close>

text \<open>
  The fifteen flags of \<open>parse_args\<close> (lines 29 to 61) with their defaults, in the order
  of the source; the key of a flag in \<open>config\<close> is its name without the dashes. The
  default of \<open>--momentum\<close> is the string \<open>'0.09'\<close>, which argparse converts with the
  flag's type.
\<close>

definition parser_defaults :: "(string \<times> cval) list" where
  "parser_defaults =
     [(''name'', VNone),
      (''model'', VStr ''UNetPP''),
      (''loss'', VStr ''BCEDiceLoss''),
      (''deep_supervision'', VBool False),
      (''num_classes'', VInt 1),
      (''threshold'', VFloat (1 / 2)),
      (''input_channel_num'', VInt 4),
      (''lr'', VFloat (1 / 1000)),
      (''start_filter'', VInt 32),
      (''scheduler'', VStr ''ReduceLROnPlateau''),
      (''min_lr'', VFloat (1 / 100000)),
      (''patience'', VInt 5),
      (''optimizer'', VStr ''Adam''),
      (''momentum'', VFloat (9 / 100)),
      (''weight_decay'', VFloat (1 / 10000))]"

text \<open>
  \<open>LOSS_NAMES\<close> (lines 26 and 27). \<open>MODEL_NAMES\<close> is \<open>model.__all__\<close>, of a module that is
  not among the sources: it is a parameter.
\<close>

definition LOSS_NAMES :: "string list" where
  "LOSS_NAMES = [''BCEDiceLoss'', ''BCELoss'', ''LovaszHingeLoss'', ''BCEWithLogitsLoss'']"

definition is_str :: "cval \<Rightarrow> bool" where
  "is_str v = (case v of VStr s \<Rightarrow> True | _ \<Rightarrow> False)"

definition is_int :: "cval \<Rightarrow> bool" where
  "is_int v = (case v of VInt i \<Rightarrow> True | _ \<Rightarrow> False)"

definition is_float :: "cval \<Rightarrow> bool" where
  "is_float v = (case v of VFloat r \<Rightarrow> True | _ \<Rightarrow> False)"

definition is_bool :: "cval \<Rightarrow> bool" where
  "is_bool v = (case v of VBool b \<Rightarrow> True | _ \<Rightarrow> False)"

definition one_of :: "string list \<Rightarrow> cval \<Rightarrow> bool" where
  "one_of choices v = (case v of VStr s \<Rightarrow> s \<in> set choices | _ \<Rightarrow> False)"

text \<open>
  What a flag accepts, after the conversion by its \<open>type\<close>: a value of that type, and
  one of the \<open>choices\<close> where the flag has them. The last case is a key that no flag
  declares.
\<close>

definition flag_accepts :: "string list \<Rightarrow> string \<Rightarrow> cval \<Rightarrow> bool" where
  "flag_accepts MODEL_NAMES k v =
     (if k = ''name'' then is_str v
      else if k = ''model'' then one_of MODEL_NAMES v
      else if k = ''loss'' then one_of LOSS_NAMES v
      else if k = ''deep_supervision'' then is_bool v
      else if k = ''num_classes'' then is_int v
      else if k = ''threshold'' then is_float v
      else if k = ''input_channel_num'' then is_int v
      else if k = ''lr'' then is_float v
      else if k = ''start_filter'' then is_int v
      else if k = ''scheduler'' then
        one_of [''ReduceLROnPlateau'', ''CosineAnnealingLR'', ''MultiStepLR'', ''ConstantLR''] v
      else if k = ''min_lr'' then is_float v
      else if k = ''patience'' then is_int v
      else if k = ''optimizer'' then one_of [''Adam'', ''SGD''] v
      else if k = ''momentum'' then is_float v
      else if k = ''weight_decay'' then is_float v
      else False)"

text \<open>
  \<open>vars(parse_args())\<close> on a command line, given as the list of its options, each the
  key of a flag with the converted value; of an option given twice the last one
  counts. An option that no flag declares, or a value the flag refuses, ends the
  program with a usage message.
\<close>

definition parse_args :: "string list \<Rightarrow> (string \<times> cval) list \<Rightarrow> py_error + config" where
  "parse_args MODEL_NAMES argv =
     (if list_all (\<lambda>(k, v). flag_accepts MODEL_NAMES k v) argv
      then Inr (map_of (rev argv @ parser_defaults))
      else Inl SystemExit)"

text \<open>
  Lines 151 to 155: the name of the run when \<open>--name\<close> is not given. \<open>now\<close> is the
  formatted time, \<open>py_str\<close> is Python's \<open>str\<close>.
\<close>

definition main_run_name :: "(cval \<Rightarrow> string) \<Rightarrow> string \<Rightarrow> config \<Rightarrow> py_error + config" where
  "main_run_name py_str now config =
     py_then (dict_get config ''name'') (\<lambda>name.
       if name = VNone then
         py_then (dict_get config ''deep_supervision'') (\<lambda>deep.
           if truthy deep then
             py_then (dict_get config ''model'') (\<lambda>m.
               Inr (config(''name'' \<mapsto> VStr (py_str m @ ''_'' @ now @ ''_deepsupervision''))))
           else
             py_then (dict_get config ''model'') (\<lambda>m.
               Inr (config(''name'' \<mapsto> VStr (py_str m @ ''_'' @ now @ ''_normal'')))))
       else Inr config)"

subsection \<open>The network\<close>

text \<open>
  Lines 164 to 168. \<open>model_dict\<close> is \<open>model.__dict__\<close>: the constructors of the model
  library by name, each taking the list of its arguments. The callee is evaluated
  before the arguments, the arguments from left to right.
\<close>

definition module_get :: "(string \<rightharpoonup> 'c) \<Rightarrow> cval \<Rightarrow> py_error + 'c" where
  "module_get d k =
     (case k of
        VStr s \<Rightarrow> (case d s of None \<Rightarrow> Inl (KeyError k) | Some c \<Rightarrow> Inr c)
      | _ \<Rightarrow> Inl (KeyError k))"

definition main_create_model ::
  "(string \<rightharpoonup> (cval list \<Rightarrow> py_error + 'net)) \<Rightarrow> config \<Rightarrow> py_error + 'net" where
  "main_create_model model_dict config =
     py_then (dict_get config ''model'') (\<lambda>printed.
     py_then (dict_get config ''model'') (\<lambda>m.
       if m = VStr ''ARUNet'' then
         py_then (dict_get config ''model'') (\<lambda>m'.
         py_then (module_get model_dict m') (\<lambda>ctor.
         py_then (dict_get config ''num_classes'') (\<lambda>num_classes.
           ctor [num_classes])))
       else
         py_then (dict_get config ''model'') (\<lambda>m'.
         py_then (module_get model_dict m') (\<lambda>ctor.
         py_then (dict_get config ''num_classes'') (\<lambda>num_classes.
         py_then (dict_get config ''input_channels'') (\<lambda>input_channels.
         py_then (dict_get config ''deep_supervision'') (\<lambda>deep_supervision.
           ctor [num_classes, input_channels, deep_supervision])))))))"

subsection \<open>The sample identifiers\<close>

text \<open>
  \<open>os.path.join\<close>, \<open>os.path.basename\<close> and the three functions of \<open>os.path\<close> that split a
  path in two, as the standard library defines them for POSIX paths.
\<close>

definition py_join :: "string \<Rightarrow> string list \<Rightarrow> string" where
  "py_join a ps =
     fold (\<lambda>b path. if take 1 b = ''/'' then b
                     else if path = [] \<or> last path = CHR ''/'' then path @ b
                     else path @ ''/'' @ b) ps a"

definition py_basename :: "string \<Rightarrow> string" where
  "py_basename p = rev (takeWhile (\<lambda>c. c \<noteq> CHR ''/'') (rev p))"

definition py_splitext :: "string \<Rightarrow> string \<times> string" where
  "py_splitext p =
     (let b = py_basename p;
          d = take (length p - length b) p;
          e = rev (takeWhile (\<lambda>c. c \<noteq> CHR ''.'') (rev b));
          r = take (length b - length e - 1) b
      in if CHR ''.'' \<in> set b \<and> list_ex (\<lambda>c. c \<noteq> CHR ''.'') r
         then (d @ r, CHR ''.'' # e) else (p, []))"

definition py_split :: "string \<Rightarrow> string \<times> string" where
  "py_split p =
     (let t = py_basename p;
          h = take (length p - length t) p
      in (if list_ex (\<lambda>c. c \<noteq> CHR ''/'') h
          then rev (dropWhile (\<lambda>c. c = CHR ''/'') (rev h)) else h, t))"

definition py_splitdrive :: "string \<Rightarrow> string \<times> string" where
  "py_splitdrive p = ([], p)"

text \<open>
  The attribute of \<open>os.path\<close> of a given name, among its functions from a path to a
  pair. The module has no attribute of another name with such a value; reading one
  raises \<open>AttributeError\<close>.
\<close>

definition os_path_getattr :: "string \<Rightarrow> py_error + (string \<Rightarrow> string \<times> string)" where
  "os_path_getattr name =
     (if name = ''splitext'' then Inr py_splitext
      else if name = ''split'' then Inr py_split
      else if name = ''splitdrive'' then Inr py_splitdrive
      else Inl (AttributeError name))"

text \<open>A list comprehension whose element expression can raise.\<close>

fun comprehension :: "('a \<Rightarrow> py_error + 'b) \<Rightarrow> 'a list \<Rightarrow> py_error + 'b list" where
  "comprehension f [] = Inr []"
| "comprehension f (x # xs) =
     (case f x of Inl e \<Rightarrow> Inl e
      | Inr y \<Rightarrow> (case comprehension f xs of Inl e \<Rightarrow> Inl e | Inr ys \<Rightarrow> Inr (y # ys)))"

text \<open>
  Lines 187 to 191. \<open>glob\<close> is the file system: the paths that match a pattern. The
  element expression of line 190 is \<open>os.path.splittext(os.path.basename(p))[0]\<close>; the
  attribute is read before the argument is evaluated. The identifiers are a set: the
  order of \<open>list(set(...))\<close> is not fixed.
\<close>

definition img_id :: "string \<Rightarrow> py_error + string" where
  "img_id p = py_then (os_path_getattr ''splittext'') (\<lambda>f. Inr (fst (f (py_basename p))))"

definition main_dirs :: "(string \<Rightarrow> string list) \<Rightarrow> config \<Rightarrow> string \<Rightarrow> py_error + string list" where
  "main_dirs glob config split =
     py_then (dict_get config ''dataset'') (\<lambda>d.
       case d of VStr dataset \<Rightarrow> Inr (glob (py_join dataset [split, ''*'', ''*'']))
       | _ \<Rightarrow> Inl (TypeError ''expected str, bytes or os.PathLike object''))"

definition main_img_ids ::
  "(string \<Rightarrow> string list) \<Rightarrow> config \<Rightarrow> py_error + string set \<times> string set" where
  "main_img_ids glob config =
     py_then (main_dirs glob config ''train'') (\<lambda>train_dirs.
     py_then (main_dirs glob config ''validation'') (\<lambda>valid_dirs.
     py_then (comprehension img_id train_dirs) (\<lambda>train_img_ids.
     py_then (comprehension img_id valid_dirs) (\<lambda>valid_img_ids.
       Inr (set train_img_ids, set valid_img_ids)))))"

subsection \<open>The criterion\<close>

text \<open>
  Line 158: \<open>criterion = BCEDiceLoss().cuda()\<close>. The call has no argument and does not
  read \<open>config\<close>.
\<close>

definition main_criterion :: "config \<Rightarrow> py_error + BCEDiceLoss_obj" where
  "main_criterion config = BCEDiceLoss_init []"

subsection \<open>The loss of one batch\<close>

text \<open>
  Lines 82 to 93 of \<open>train\<close> and lines 122 to 133 of \<open>validate\<close>. \<open>criterion\<close> receives
  the list of its positional arguments; \<open>outputs\<close> is what \<open>net(input)\<close> returns under
  deep supervision and \<open>output\<close> what it returns otherwise; \<open>iou_score\<close> is the
  repository's metric, which is not among the sources.
\<close>

definition train_batch_loss ::
  "('v list \<Rightarrow> py_error + real) \<Rightarrow> ('v \<Rightarrow> 'v \<Rightarrow> 'v \<Rightarrow> py_error + real) \<Rightarrow> config
     \<Rightarrow> 'v list \<Rightarrow> 'v \<Rightarrow> 'v \<Rightarrow> 'v \<Rightarrow> py_error + real \<times> real" where
  "train_batch_loss criterion iou_score config outputs output target input_shape =
     py_then (dict_get config ''deep_supervision'') (\<lambda>deep.
       if truthy deep then
         py_then (for_each outputs
                    (\<lambda>output loss. py_then (criterion [output, target, input_shape])
                                     (\<lambda>l. Inr (loss + l))) 0) (\<lambda>loss.
           if length outputs = 0 then Inl ZeroDivisionError
           else py_then (iou_score (last outputs) target input_shape) (\<lambda>ji.
                  Inr (loss / real (length outputs), ji)))
       else
         py_then (criterion [output, target, input_shape]) (\<lambda>loss.
         py_then (iou_score output target input_shape) (\<lambda>ji. Inr (loss, ji))))"

definition validate_batch_loss ::
  "('v list \<Rightarrow> py_error + real) \<Rightarrow> ('v \<Rightarrow> 'v \<Rightarrow> 'v \<Rightarrow> py_error + real) \<Rightarrow> config
     \<Rightarrow> 'v list \<Rightarrow> 'v \<Rightarrow> 'v \<Rightarrow> 'v \<Rightarrow> py_error + real \<times> real" where
  "validate_batch_loss criterion iou_score config outputs output target input_shape =
     py_then (dict_get config ''deep_supervision'') (\<lambda>deep.
       if truthy deep then
         py_then (for_each outputs
                    (\<lambda>output loss. py_then (criterion [output, target, input_shape])
                                     (\<lambda>l. Inr (loss + l))) 0) (\<lambda>loss.
           if length outputs = 0 then Inl ZeroDivisionError
           else py_then (iou_score (last outputs) target input_shape) (\<lambda>ji.
                  Inr (loss / real (length outputs), ji)))
       else
         py_then (criterion [output, target, input_shape]) (\<lambda>loss.
         py_then (iou_score output target input_shape) (\<lambda>ji. Inr (loss, ji))))"

subsection \<open>The calls of train and validate\<close>

text \<open>
  \<open>def train(net, train_loader, criterion, optimizer, config)\<close> (line 63) and
  \<open>def validate(net, valid_loader, criterion, config)\<close> (line 109).
\<close>

definition train_params :: "(string \<times> 'o option) list" where
  "train_params =
     [(''net'', None), (''train_loader'', None), (''criterion'', None),
      (''optimizer'', None), (''config'', None)]"

definition validate_params :: "(string \<times> 'o option) list" where
  "validate_params =
     [(''net'', None), (''valid_loader'', None), (''criterion'', None), (''config'', None)]"

text \<open>
  The objects that the local variables of \<open>main\<close> hold when the loop over the epochs
  starts: the two data loaders (lines 220 and 226), the network (line 170), the
  criterion, the optimizer and the configuration.
\<close>

record 'o main_locals =
  l_train_loader :: 'o
  l_valid_loader :: 'o
  l_net :: 'o
  l_criterion :: 'o
  l_optimizer :: 'o
  l_config :: 'o

text \<open>
  Line 242, \<open>train(train_loader, net, criterion, optimizer, config)\<close>, and line 244,
  \<open>validate(valid_loader, net, criterion, config)\<close>: the parameters as the two calls
  bind them.
\<close>

definition main_train_call :: "'o main_locals \<Rightarrow> py_error + (string \<times> 'o) list" where
  "main_train_call m =
     bind_args train_params
       [l_train_loader m, l_net m, l_criterion m, l_optimizer m, l_config m]"

definition main_validate_call :: "'o main_locals \<Rightarrow> py_error + (string \<times> 'o) list" where
  "main_validate_call m =
     bind_args validate_params [l_valid_loader m, l_net m, l_criterion m, l_config m]"

text \<open>
  The objects that \<open>main\<close> passes, as far as lines 73 to 77 and 112 to 116 use them. A
  data loader has a length and gives its batches when iterated, and has neither a
  method \<open>train\<close> nor a method \<open>eval\<close>; a torch module has both methods, and neither a
  length nor an iteration. \<open>call_method\<close> is for these two method names.
\<close>

datatype 'b py_obj = DataLoaderObj "'b list" | ModuleObj | OtherObj

definition call_method :: "'b py_obj \<Rightarrow> string \<Rightarrow> py_error + unit" where
  "call_method obj name =
     (case obj of
        ModuleObj \<Rightarrow> Inr ()
      | DataLoaderObj batches \<Rightarrow> Inl (AttributeError name)
      | OtherObj \<Rightarrow> Inl (AttributeError name))"

definition py_len :: "'b py_obj \<Rightarrow> py_error + nat" where
  "py_len obj =
     (case obj of
        DataLoaderObj batches \<Rightarrow> Inr (length batches)
      | ModuleObj \<Rightarrow> Inl (TypeError ''object has no len()'')
      | OtherObj \<Rightarrow> Inl (TypeError ''object has no len()''))"

definition py_iter :: "'b py_obj \<Rightarrow> py_error + 'b list" where
  "py_iter obj =
     (case obj of
        DataLoaderObj batches \<Rightarrow> Inr batches
      | ModuleObj \<Rightarrow> Inl (TypeError ''object is not iterable'')
      | OtherObj \<Rightarrow> Inl (TypeError ''object is not iterable''))"

text \<open>
  \<open>train\<close> (lines 63 to 107) up to its loop: \<open>net.train()\<close> at line 73,
  \<open>len(train_loader)\<close> at line 75, and the \<open>for\<close> over \<open>train_loader\<close> at line 77.
  \<open>batches_loop\<close> is the loop over the batches with the \<open>return\<close> of line 107; it
  receives what the \<open>for\<close> iterates. \<open>validate\<close> (lines 109 to 143) likewise, with
  \<open>net.eval()\<close> at line 112.
\<close>

definition train ::
  "'b py_obj list \<Rightarrow> ((string \<times> 'b py_obj) list \<Rightarrow> 'b list \<Rightarrow> py_error + 'r) \<Rightarrow> py_error + 'r" where
  "train args batches_loop =
     py_then (bind_args train_params args) (\<lambda>env.
     py_then (call_method (arg env ''net'') ''train'') (\<lambda>u.
     py_then (py_len (arg env ''train_loader'')) (\<lambda>total.
     py_then (py_iter (arg env ''train_loader'')) (\<lambda>batches.
       batches_loop env batches))))"

definition validate ::
  "'b py_obj list \<Rightarrow> ((string \<times> 'b py_obj) list \<Rightarrow> 'b list \<Rightarrow> py_error + 'r) \<Rightarrow> py_error + 'r" where
  "validate args batches_loop =
     py_then (bind_args validate_params args) (\<lambda>env.
     py_then (call_method (arg env ''net'') ''eval'') (\<lambda>u.
     py_then (py_len (arg env ''valid_loader'')) (\<lambda>total.
     py_then (py_iter (arg env ''valid_loader'')) (\<lambda>batches.
       batches_loop env batches))))"

text \<open>Lines 242 and 244: the two calls of an epoch, one after the other.\<close>

definition main_train_validate ::
  "'b py_obj main_locals \<Rightarrow> ((string \<times> 'b py_obj) list \<Rightarrow> 'b list \<Rightarrow> py_error + 'r)
     \<Rightarrow> ((string \<times> 'b py_obj) list \<Rightarrow> 'b list \<Rightarrow> py_error + 'r) \<Rightarrow> py_error + 'r \<times> 'r" where
  "main_train_validate m train_loop validate_loop =
     py_then (train [l_train_loader m, l_net m, l_criterion m, l_optimizer m, l_config m]
                train_loop) (\<lambda>train_log.
     py_then (validate [l_valid_loader m, l_net m, l_criterion m, l_config m]
                validate_loop) (\<lambda>val_log.
       Inr (train_log, val_log)))"

subsection \<open>The loop over the epochs\<close>

text \<open>
  The variables of \<open>main\<close> that the loop changes, and the two files it writes:
  \<open>log\<close> is the ordered dictionary of line 231, a column of values under each key;
  \<open>log_csv\<close> is the content of \<open>models/<name>/log.csv\<close> and \<open>csv_writes\<close> the number of
  times it was written; \<open>model_pth\<close> is the content of \<open>models/<name>/model.pth\<close> and
  \<open>pth_writes\<close> the epochs at which it was written.
\<close>

record 'sd run_state =
  log :: "(string \<times> cval list) list"
  best_iou :: real
  trigger :: int
  log_csv :: "(string \<times> cval list) list option"
  csv_writes :: nat
  model_pth :: "'sd option"
  pth_writes :: "nat list"

text \<open>Lines 231 to 236.\<close>

definition initial_state :: "'sd run_state" where
  "initial_state =
     \<lparr>log = [(''epoch'', []), (''loss'', []), (''lr'', []), (''iou'', []),
             (''valid_loss'', []), (''valid_accuracy'', [])],
      best_iou = 0, trigger = 0, log_csv = None, csv_writes = 0,
      model_pth = None, pth_writes = []\<rparr>"

text \<open>
  A statement of the loop body takes the state and gives its outcome with the state it
  leaves: what was appended or written before an exception stays.
\<close>

type_synonym ('sd, 'a) stmt = "'sd run_state \<Rightarrow> (py_error + 'a) \<times> 'sd run_state"

definition seq :: "('sd, 'a) stmt \<Rightarrow> ('a \<Rightarrow> ('sd, 'b) stmt) \<Rightarrow> ('sd, 'b) stmt" where
  "seq m f s = (case m s of (Inl e, s') \<Rightarrow> (Inl e, s') | (Inr a, s') \<Rightarrow> f a s')"

definition expr :: "py_error + 'a \<Rightarrow> ('sd, 'a) stmt" where
  "expr m s = (m, s)"

definition assign :: "('sd run_state \<Rightarrow> 'sd run_state) \<Rightarrow> ('sd, unit) stmt" where
  "assign f s = (Inr (), f s)"

text \<open>\<open>log[k].append(v)\<close>, where \<open>log[k]\<close> is evaluated before \<open>v\<close>.\<close>

definition log_append :: "string \<Rightarrow> py_error + cval \<Rightarrow> ('sd, unit) stmt" where
  "log_append k v =
     seq (\<lambda>s. expr (dict_get (map_of (log s)) k) s) (\<lambda>column.
     seq (expr v) (\<lambda>x.
       assign (\<lambda>s. s\<lparr>log := map (\<lambda>(k', c). if k' = k then (k', c @ [x]) else (k', c)) (log s)\<rparr>)))"

text \<open>A number for a comparison with a number; other values do not compare.\<close>

definition num_of :: "cval \<Rightarrow> py_error + real" where
  "num_of v =
     (case v of VInt i \<Rightarrow> Inr (of_int i) | VFloat r \<Rightarrow> Inr r
      | VBool b \<Rightarrow> Inr (if b then 1 else 0)
      | VStr s \<Rightarrow> Inl (TypeError ''>= not supported between str and int'')
      | VNone \<Rightarrow> Inl (TypeError ''>= not supported between NoneType and int''))"

datatype flow = Continue | Break

text \<open>
  Lines 263 to 274: the counter of the epochs without improvement, the checkpoint and
  the early stop. \<open>state_dict\<close> is the outcome of evaluating \<open>model.state_dict()\<close>, an
  attribute of the module \<open>model\<close>, which is not among the sources; it is evaluated
  before the path of the file. \<open>torch.save\<close> replaces the content of the file.
\<close>

definition bookkeeping ::
  "config \<Rightarrow> py_error + 'sd \<Rightarrow> nat \<Rightarrow> (string \<rightharpoonup> real) \<Rightarrow> ('sd, flow) stmt" where
  "bookkeeping config state_dict epoch val_log =
     seq (assign (\<lambda>s. s\<lparr>trigger := trigger s + 1\<rparr>)) (\<lambda>u.
     seq (expr (dict_get val_log ''iou'')) (\<lambda>iou.
     seq (\<lambda>s. if best_iou s < iou then
                 seq (expr state_dict) (\<lambda>sd.
                 seq (expr (dict_get config ''name'')) (\<lambda>name.
                 seq (assign (\<lambda>s. s\<lparr>model_pth := Some sd,
                                       pth_writes := pth_writes s @ [epoch]\<rparr>)) (\<lambda>u.
                 seq (expr (dict_get val_log ''iou'')) (\<lambda>iou'.
                   assign (\<lambda>s. s\<lparr>best_iou := iou', trigger := 0\<rparr>))))) s
               else (Inr (), s)) (\<lambda>u.
     seq (expr (dict_get config ''early_stopping'')) (\<lambda>es.
     seq (expr (num_of es)) (\<lambda>n.
       if 0 \<le> n then
         seq (expr (dict_get config ''early_stopping'')) (\<lambda>es'.
         seq (expr (num_of es')) (\<lambda>n'.
           (\<lambda>s. if n' \<le> of_int (trigger s) then (Inr Break, s) else (Inr Continue, s))))
       else expr (Inr Continue))))))"

text \<open>
  \<open>pd.DataFrame(log)\<close> wants columns of one length. \<open>to_csv\<close> replaces the content of
  the log file (line 261).
\<close>

definition data_frame :: "(string \<times> cval list) list \<Rightarrow> py_error + (string \<times> cval list) list" where
  "data_frame columns =
     (if length (remdups (map (\<lambda>kc. length (snd kc)) columns)) \<le> 1 then Inr columns
      else Inl (ValueError ''All arrays must be of the same length''))"

definition float_of :: "py_error + real \<Rightarrow> py_error + cval" where
  "float_of m = py_then m (\<lambda>r. Inr (VFloat r))"

text \<open>
  One pass of the body of the loop (lines 239 to 276). \<open>train_result\<close> and
  \<open>validate_result\<close> are the outcomes of the calls of lines 242 and 244: the
  dictionary the call returned, or the exception it raised. The steps of the two
  schedulers are calls into torch and change nothing that is modelled here; the two
  \<open>print\<close> calls read the keys they format.
\<close>

definition main_epoch ::
  "config \<Rightarrow> py_error + 'sd \<Rightarrow> nat \<Rightarrow> py_error + (string \<rightharpoonup> real)
     \<Rightarrow> py_error + (string \<rightharpoonup> real) \<Rightarrow> ('sd, flow) stmt" where
  "main_epoch config state_dict epoch train_result validate_result =
     seq (expr (dict_get config ''epochs'')) (\<lambda>u.
     seq (expr train_result) (\<lambda>train_log.
     seq (expr validate_result) (\<lambda>val_log.
     seq (expr (dict_get config ''scheduler'')) (\<lambda>sch.
     seq (if sch = VStr ''CosineAnnealingLR'' then expr (Inr ())
          else seq (expr (dict_get config ''scheduler'')) (\<lambda>sch'.
                 if sch' = VStr ''ReduceLROnPlateau''
                 then seq (expr (dict_get val_log ''loss'')) (\<lambda>l. expr (Inr ()))
                 else expr (Inr ()))) (\<lambda>u.
     seq (expr (dict_get train_log ''loss'')) (\<lambda>u.
     seq (expr (dict_get train_log ''iou'')) (\<lambda>u.
     seq (expr (dict_get val_log ''loss'')) (\<lambda>u.
     seq (expr (dict_get val_log ''iou'')) (\<lambda>u.
     seq (log_append ''epoch'' (Inr (VInt (int epoch)))) (\<lambda>u.
     seq (log_append ''lr'' (dict_get config ''lr'')) (\<lambda>u.
     seq (log_append ''loss'' (float_of (dict_get train_log ''loss''))) (\<lambda>u.
     seq (log_append ''iou'' (float_of (dict_get train_log ''iou''))) (\<lambda>u.
     seq (log_append ''val_loss'' (float_of (dict_get val_log ''loss''))) (\<lambda>u.
     seq (log_append ''val_iou'' (float_of (dict_get val_log ''iou''))) (\<lambda>u.
     seq (\<lambda>s. expr (data_frame (log s)) s) (\<lambda>frame.
     seq (expr (dict_get config ''name'')) (\<lambda>name.
     seq (assign (\<lambda>s. s\<lparr>log_csv := Some frame, csv_writes := csv_writes s + 1\<rparr>)) (\<lambda>u.
       bookkeeping config state_dict epoch val_log))))))))))))))))))"

text \<open>
  The loop of line 238, over the epochs of a range; \<open>break\<close> and an exception end it.
  \<open>results\<close> gives the outcomes of \<open>train\<close> and \<open>validate\<close> in each epoch.
\<close>

fun main_epochs ::
  "config \<Rightarrow> (nat \<Rightarrow> py_error + 'sd)
     \<Rightarrow> (nat \<Rightarrow> (py_error + (string \<rightharpoonup> real)) \<times> (py_error + (string \<rightharpoonup> real)))
     \<Rightarrow> nat list \<Rightarrow> 'sd run_state \<Rightarrow> (py_error + unit) \<times> 'sd run_state" where
  "main_epochs config state_dict results [] s = (Inr (), s)"
| "main_epochs config state_dict results (epoch # rest) s =
     (case main_epoch config (state_dict epoch) epoch (fst (results epoch))
             (snd (results epoch)) s of
        (Inl e, s') \<Rightarrow> (Inl e, s')
      | (Inr Break, s') \<Rightarrow> (Inr (), s')
      | (Inr Continue, s') \<Rightarrow> main_epochs config state_dict results rest s')"

definition main_loop ::
  "config \<Rightarrow> (nat \<Rightarrow> py_error + 'sd)
     \<Rightarrow> (nat \<Rightarrow> (py_error + (string \<rightharpoonup> real)) \<times> (py_error + (string \<rightharpoonup> real)))
     \<Rightarrow> (py_error + unit) \<times> 'sd run_state" where
  "main_loop config state_dict results =
     (case dict_get config ''epochs'' of
        Inl e \<Rightarrow> (Inl e, initial_state)
      | Inr (VInt n) \<Rightarrow> main_epochs config state_dict results [0..<nat n] initial_state
      | Inr (VBool b) \<Rightarrow>
          main_epochs config state_dict results [0..<(if b then 1 else 0)] initial_state
      | Inr other \<Rightarrow>
          (Inl (TypeError ''object cannot be interpreted as an integer''), initial_state))"

subsection \<open>Examples\<close>

text \<open>
  A file system with the three files \<open>train/A2C/p001.img\<close>, \<open>train/A2C/p001.mask\<close> and
  \<open>train/A4C/p002.img\<close> under the dataset root \<open>data\<close>, as \<open>glob\<close> sees it.
\<close>

definition example_glob :: "string \<Rightarrow> string list" where
  "example_glob pattern =
     (if pattern = ''data/train/*/*''
      then [''data/train/A2C/p001.img'', ''data/train/A2C/p001.mask'',
            ''data/train/A4C/p002.img'']
      else [])"

text \<open>
  A configuration that has every key the loop reads, with a number of epochs and an
  early-stopping threshold; and outcomes of \<open>train\<close> and \<open>validate\<close> that have every
  key the loop reads, with the validation IoU of each epoch taken from a list.
\<close>

definition run_config :: "int \<Rightarrow> int \<Rightarrow> config" where
  "run_config epochs early_stopping =
     [''epochs'' \<mapsto> VInt epochs, ''scheduler'' \<mapsto> VStr ''ConstantLR'',
      ''lr'' \<mapsto> VFloat (1 / 1000), ''name'' \<mapsto> VStr ''run'',
      ''early_stopping'' \<mapsto> VInt early_stopping]"

definition run_results ::
  "real list \<Rightarrow> nat \<Rightarrow> (py_error + (string \<rightharpoonup> real)) \<times> (py_error + (string \<rightharpoonup> real))" where
  "run_results ious epoch =
     (Inr [''loss'' \<mapsto> 1, ''iou'' \<mapsto> ious ! epoch],
      Inr [''loss'' \<mapsto> 1, ''iou'' \<mapsto> ious ! epoch])"

definition improving_ious :: "real list" where
  "improving_ious = [1 / 10, 3 / 10, 2 / 10, 5 / 10, 4 / 10]"

definition declining_ious :: "real list" where
  "declining_ious = [5 / 10, 4 / 10, 3 / 10]"

section \<open>Properties\<close>

lemma py_int_half: "0 \<le> a \<Longrightarrow> py_int (py_truediv a 2) = a div 2"
proof -
  assume a: "0 \<le> a"
  have "\<lfloor>(of_int a :: rat) / of_int 2\<rfloor> = a div 2"
    by (rule floor_divide_of_int_eq)
  moreover have "0 \<le> (of_int a :: rat) / of_int 2" using a by simp
  ultimately show ?thesis by (simp add: py_int_def py_truediv_def)
qed

text \<open>
  For a sample of height \<open>h\<close> and width \<open>w\<close> with \<open>0 < h \<le> 768\<close> and \<open>0 < w \<le> 1024\<close>,
  both per-sample cropping helpers compute \<open>dh = floor ((768 - h) / 2)\<close> and
  \<open>dw = floor ((1024 - w) / 2)\<close>, which is integer floor division, and call the crop
  with the image, \<open>dw\<close>, \<open>dh\<close>, \<open>h\<close>, \<open>w\<close> in this order; \<open>BCELoss._crop\<close> and
  \<open>BCEDiceLoss._crop_single\<close> agree on every input.
\<close>

lemma crop_helpers_floor_offsets:
  assumes "0 < h" and "h \<le> 768" and "0 < w" and "w \<le> 1024"
  shows "BCELoss_crop crop img (h, w) =
           crop img \<lfloor>(of_int (1024 - w) :: rat) / 2\<rfloor> \<lfloor>(of_int (768 - h) :: rat) / 2\<rfloor> h w
       \<and> \<lfloor>(of_int (768 - h) :: rat) / 2\<rfloor> = (768 - h) div 2
       \<and> \<lfloor>(of_int (1024 - w) :: rat) / 2\<rfloor> = (1024 - w) div 2
       \<and> BCEDiceLoss_crop_single crop img (h, w) = BCELoss_crop crop img (h, w)"
proof -
  have fh: "\<lfloor>(of_int (768 - h) :: rat) / 2\<rfloor> = (768 - h) div 2"
    using floor_divide_of_int_eq [of "768 - h" 2, where ?'a = rat] by simp
  have fw: "\<lfloor>(of_int (1024 - w) :: rat) / 2\<rfloor> = (1024 - w) div 2"
    using floor_divide_of_int_eq [of "1024 - w" 2, where ?'a = rat] by simp
  have dh: "py_int (py_truediv (768 - h) 2) = (768 - h) div 2"
    using assms by (intro py_int_half) simp
  have dw: "py_int (py_truediv (1024 - w) 2) = (1024 - w) div 2"
    using assms by (intro py_int_half) simp
  have a: "BCELoss_crop crop img (h, w) = crop img ((1024 - w) div 2) ((768 - h) div 2) h w"
    by (simp add: BCELoss_crop_def Let_def dh dw)
  have b: "BCEDiceLoss_crop_single crop img (h, w) = BCELoss_crop crop img (h, w)"
    by (simp add: BCELoss_crop_def BCEDiceLoss_crop_single_def)
  show ?thesis using a b fh fw by simp
qed

text \<open>
  The box that the helpers take from a one-channel canvas, where it lies inside the
  canvas: its pixel at row \<open>i\<close> and column \<open>j\<close> is the pixel of the canvas at row
  \<open>dw + i\<close> and column \<open>dh + j\<close>.
\<close>

lemma shaped_crop_pixel:
  assumes "fst t = [1, H, W]" and "0 \<le> top_row" and "0 \<le> left_col"
    and "i < nat height" and "j < nat width"
    and "nat top_row + i < H" and "nat left_col + j < W"
  shows "pixel (shaped_crop t top_row left_col height width) i j
           = pixel t (nat top_row + i) (nat left_col + j)"
proof -
  let ?h = "nat height" and ?w = "nat width"
  have k: "i * ?w + j < ?h * ?w"
  proof -
    have "i * ?w + j < i * ?w + ?w" using assms(5) by simp
    also have "\<dots> = (i + 1) * ?w" by simp
    also have "\<dots> \<le> ?h * ?w" using assms(4) by (intro mult_le_mono1) simp
    finally show ?thesis .
  qed
  have d: "(i * ?w + j) div (?h * ?w) = 0" using k by simp
  have m: "(i * ?w + j) mod (?h * ?w) = i * ?w + j" using k by simp
  have q: "(i * ?w + j) div ?w = i" using assms(5) by simp
  have r: "(i * ?w + j) mod ?w = j" using assms(5) by simp
  have jm: "j mod ?w = j" using assms(5) by simp
  have row: "top_row + int i < int H" "0 \<le> top_row + int i" using assms(2,6) by linarith+
  have col: "left_col + int j < int W" "0 \<le> left_col + int j" using assms(3,7) by linarith+
  have nr: "nat (top_row + int i) = nat top_row + i" using assms(2) by linarith
  have nc: "nat (left_col + int j) = nat left_col + j" using assms(3) by linarith
  show ?thesis
    using k row col
    by (simp add: pixel_def shaped_crop_def assms(1) Let_def d m q r jm nr nc)
qed

lemma crop_helper_box:
  assumes "fst t = [1, 768, 1024]" and "0 < h" and "h \<le> 768" and "0 < w" and "w \<le> 1024"
    and "i < nat h" and "j < nat w"
    and "nat ((1024 - w) div 2) + i < 768" and "nat ((768 - h) div 2) + j < 1024"
  shows "pixel (BCELoss_crop shaped_crop t (h, w)) i j
           = pixel t (nat ((1024 - w) div 2) + i) (nat ((768 - h) div 2) + j)"
proof -
  have dh: "py_int (py_truediv (768 - h) 2) = (768 - h) div 2"
    using assms(3) by (intro py_int_half) simp
  have dw: "py_int (py_truediv (1024 - w) 2) = (1024 - w) div 2"
    using assms(5) by (intro py_int_half) simp
  have c: "BCELoss_crop shaped_crop t (h, w)
      = shaped_crop t ((1024 - w) div 2) ((768 - h) div 2) h w"
    by (simp add: BCELoss_crop_def Let_def dh dw)
  have p: "0 \<le> (1024 - w) div 2" "0 \<le> (768 - h) div 2"
    using assms(3,5) by simp_all
  show ?thesis
    unfolding c
    by (rule shaped_crop_pixel [OF assms(1) p assms(6,7,8,9)])
qed

text \<open>
  Claim C3. Both helpers compute \<open>dh\<close> from the height and \<open>dw\<close> from the width, and
  should extract the box of \<open>h\<close> rows and \<open>w\<close> columns at the horizontal offset \<open>dw\<close> and
  the vertical offset \<open>dh\<close>. \<open>transF.crop\<close> takes the top row before the left column
  and the helpers pass \<open>dw\<close> first: for a sample of height 512 and width 600, inside
  the range of the claim, the offsets are \<open>dh = 128\<close> and \<open>dw = 212\<close>, and the first
  pixel of the crop is the pixel of the canvas at row 212 and column 128, not the one
  at row 128 and column 212.
\<close>

theorem crop_box_transposed:
  "py_int (py_truediv (768 - 512) 2) = 128
   \<and> py_int (py_truediv (1024 - 600) 2) = 212
   \<and> fst (BCELoss_crop shaped_crop canvas (512, 600)) = [1, 512, 600]
   \<and> pixel (BCELoss_crop shaped_crop canvas (512, 600)) 0 0 = pixel canvas 212 128
   \<and> pixel (BCEDiceLoss_crop_single shaped_crop canvas (512, 600)) 0 0 = pixel canvas 212 128
   \<and> pixel canvas 212 128 \<noteq> pixel canvas 128 212"
proof -
  have dh: "py_int (py_truediv (768 - 512) 2) = 128"
    using py_int_half [of 256] by simp
  have dw: "py_int (py_truediv (1024 - 600) 2) = 212"
    using py_int_half [of 424] by simp
  have c: "BCELoss_crop shaped_crop canvas (512, 600) = shaped_crop canvas 212 128 512 600"
    using dh dw by (simp add: BCELoss_crop_def Let_def)
  have c': "BCEDiceLoss_crop_single shaped_crop canvas (512, 600)
      = shaped_crop canvas 212 128 512 600"
    using dh dw by (simp add: BCEDiceLoss_crop_single_def Let_def)
  have sh: "fst (shaped_crop canvas 212 128 512 600) = [1, 512, 600]"
    by (simp add: shaped_crop_def canvas_def Let_def)
  have p: "pixel (shaped_crop canvas 212 128 512 600) 0 0 = pixel canvas 212 128"
    using shaped_crop_pixel [of canvas 768 1024 212 128 0 512 0 600]
    by (simp add: canvas_def)
  have ne: "pixel canvas 212 128 \<noteq> pixel canvas 128 212"
    by (simp add: pixel_def canvas_def)
  show ?thesis
    using dh dw sh p ne unfolding c c' by simp
qed

lemma for_each_snoc:
  "for_each (is @ [j]) body s = py_then (for_each is body s) (body j)"
  by (induction "is" arbitrary: s) (auto simp: py_then_def split: sum.splits)

lemma softmax_body_value:
  assumes "tensor_shape T x = n # sx" and "tensor_shape T target = m # st"
    and "i < n" and "i < m"
    and "1 < length input_shape" and "i < length (input_shape ! 0)"
    and "i < length (input_shape ! 1)" and "i < length weights"
    and "F_binary_cross_entropy T (pred_crop T x input_shape i)
           (target_crop T target input_shape i) (Some (weights ! i)) = Inr b"
    and "length (tensor_row T (pred_crop T x input_shape i))
           = length (tensor_row T (target_crop T target input_shape i))"
  shows "softmax_body T x target input_shape weights i (bce, isum, sx', st')
     = Inr (bce + b,
            isum + sum_list (map2 (*) (tensor_row T (pred_crop T x input_shape i))
                                       (tensor_row T (target_crop T target input_shape i))),
            sx' + sum_list (tensor_row T (pred_crop T x input_shape i)),
            st' + sum_list (tensor_row T (target_crop T target input_shape i)))"
proof -
  have "input_shape \<noteq> []" using assms(5) by auto
  then show ?thesis
    using assms
    by (simp add: softmax_body_def py_then_def tensor_getitem_def py_index_def Let_def
        pred_crop_def target_crop_def mul_rows_def BCEDiceLoss_crop_single_def)
qed

lemma softmax_loop_value:
  assumes "tensor_shape T x = n # sx" and "tensor_shape T target = m # st" and "n \<le> m"
    and "1 < length input_shape" and "n \<le> length (input_shape ! 0)"
    and "n \<le> length (input_shape ! 1)" and "n \<le> length weights"
    and "\<And>i. i < n \<Longrightarrow> F_binary_cross_entropy T (pred_crop T x input_shape i)
           (target_crop T target input_shape i) (Some (weights ! i)) = Inr (b i)"
    and "\<And>i. i < n \<Longrightarrow> length (tensor_row T (pred_crop T x input_shape i))
           = length (tensor_row T (target_crop T target input_shape i))"
    and "k \<le> n"
  shows "for_each [0..<k] (softmax_body T x target input_shape weights) (0, 0, 0, 0)
     = Inr ((\<Sum>i<k. b i),
            (\<Sum>i<k. sum_list (map2 (*) (tensor_row T (pred_crop T x input_shape i))
                                       (tensor_row T (target_crop T target input_shape i)))),
            (\<Sum>i<k. sum_list (tensor_row T (pred_crop T x input_shape i))),
            (\<Sum>i<k. sum_list (tensor_row T (target_crop T target input_shape i))))"
  using \<open>k \<le> n\<close>
proof (induction k)
  case 0
  then show ?case by simp
next
  case (Suc k)
  then have k: "k < n" and IH: "for_each [0..<k] (softmax_body T x target input_shape weights) (0, 0, 0, 0)
     = Inr ((\<Sum>i<k. b i),
            (\<Sum>i<k. sum_list (map2 (*) (tensor_row T (pred_crop T x input_shape i))
                                       (tensor_row T (target_crop T target input_shape i)))),
            (\<Sum>i<k. sum_list (tensor_row T (pred_crop T x input_shape i))),
            (\<Sum>i<k. sum_list (tensor_row T (target_crop T target input_shape i))))"
    by simp_all
  have step: "\<And>bce isum sx' st'. softmax_body T x target input_shape weights k (bce, isum, sx', st')
     = Inr (bce + b k,
            isum + sum_list (map2 (*) (tensor_row T (pred_crop T x input_shape k))
                                       (tensor_row T (target_crop T target input_shape k))),
            sx' + sum_list (tensor_row T (pred_crop T x input_shape k)),
            st' + sum_list (tensor_row T (target_crop T target input_shape k)))"
    by (rule softmax_body_value [OF assms(1) assms(2) k]) (use assms(3-9) k in auto)
  show ?case
    by (simp add: for_each_snoc IH py_then_def step)
qed


text \<open>
  What the softmax branch returns on a batch of \<open>n\<close> samples when every pass of its
  loop returns: \<open>0.5 * bce + (1 - dice) / n\<close>, where \<open>bce\<close> is the sum over the samples
  (not their average) of the weighted binary cross-entropy of the cropped softmaxed
  prediction, and
  \<open>dice = (2 * intersection + smooth) / (sum_prediction + sum_target + smooth)\<close> over the
  totals of all samples, with \<open>smooth = 1e-5\<close>.
\<close>

lemma forward_softmax_branch_value:
  assumes "self_crop self" and "self_softmax self"
    and "tensor_shape T x = n # sx" and "0 < n"
    and "tensor_shape T target = m # st" and "n \<le> m"
    and "1 < length input_shape" and "n \<le> length (input_shape ! 0)"
    and "n \<le> length (input_shape ! 1)" and "n \<le> length weights"
    and "\<And>i. i < n \<Longrightarrow> F_binary_cross_entropy T (pred_crop T x input_shape i)
           (target_crop T target input_shape i) (Some (weights ! i)) = Inr (b i)"
    and "\<And>i. i < n \<Longrightarrow> length (tensor_row T (pred_crop T x input_shape i))
           = length (tensor_row T (target_crop T target input_shape i))"
    and "bce = (\<Sum>i<n. b i)"
    and "intersection = (\<Sum>i<n. sum_list (map2 (*) (tensor_row T (pred_crop T x input_shape i))
                                       (tensor_row T (target_crop T target input_shape i))))"
    and "sum_prediction = (\<Sum>i<n. sum_list (tensor_row T (pred_crop T x input_shape i)))"
    and "sum_target = (\<Sum>i<n. sum_list (tensor_row T (target_crop T target input_shape i)))"
    and "sum_prediction + sum_target + smooth \<noteq> 0"
    and "dice = (2 * intersection + smooth) / (sum_prediction + sum_target + smooth)"
  shows "BCEDiceLoss_forward T uncropped self x target input_shape weights
           = Inr (Some (0.5 * bce + (1 - dice) / real n))
       \<and> smooth = 1 / 100000"
proof -
  have size: "py_call (tensor_size T x) 0 = Inr (int n)"
    using assms(3) by (simp add: py_call_def tensor_size_def Let_def)
  have loop: "for_each [0..<n] (softmax_body T x target input_shape weights) (0, 0, 0, 0)
     = Inr (bce, intersection, sum_prediction, sum_target)"
    unfolding assms(13-16)
    by (rule softmax_loop_value [OF assms(3) assms(5) assms(6-12)]) simp_all
  have fin: "dice_loss n (bce, intersection, sum_prediction, sum_target)
     = Inr (Some (0.5 * bce + (1 - dice) / real n))"
    using assms(4) assms(17) assms(18)
    by (simp add: dice_loss_def tensor_div_def mult.commute)
  show ?thesis
    using assms(1,2) size loop fin
    by (simp add: BCEDiceLoss_forward_def py_then_def smooth_def)
qed


lemma softmax_body_size_mismatch:
  assumes "fst x = n # sx" and "0 < n" and "fst target = m # st" and "0 < m"
    and "length st = length sx"
    and "input_shape = [hs, ws]" and "hs \<noteq> []" and "ws \<noteq> []" and "weights \<noteq> []"
  shows "softmax_body (torch_model bce bce_logits) x target input_shape weights 0 acc
     = Inl (ValueError ''Using a target size that is different to the input size'')"
proof -
  obtain a b c d where acc: "acc = (a, b, c, d)" by (cases acc) auto
  let ?T = "torch_model bce bce_logits"
  let ?h = "hs ! 0" and ?w = "ws ! 0"
  let ?dh = "py_int (py_truediv (768 - ?h) 2)" and ?dw = "py_int (py_truediv (1024 - ?w) 2)"
  let ?p = "shaped_unsqueeze (shaped_crop (shaped_softmax (shaped_index x 0)) ?dw ?dh ?h ?w)"
  let ?t = "shaped_crop (shaped_index target 0) ?dw ?dh ?h ?w"
  have sm: "fst (shaped_softmax (shaped_index x 0)) = sx"
    using assms(1) by (simp add: shaped_softmax_def shaped_index_def Let_def split: list.splits)
  have lp: "length (fst ?p) = Suc (length sx - 2 + 2)"
    by (simp add: shaped_unsqueeze_def shaped_crop_def Let_def sm)
  have lt: "length (fst ?t) = length st - 2 + 2"
    using assms(3) by (simp add: shaped_crop_def shaped_index_def Let_def)
  have ne: "fst ?t \<noteq> fst ?p"
    using lp lt assms(5) by (metis n_not_Suc_n)
  have bce: "shaped_bce bce ?p ?t (Some (weights ! 0))
      = Inl (ValueError ''Using a target size that is different to the input size'')"
    using ne by (simp add: shaped_bce_def)
  show ?thesis
    using assms bce
    by (simp add: acc softmax_body_def torch_model_def py_then_def tensor_getitem_def
        py_index_def BCEDiceLoss_crop_single_def Let_def)
qed

text \<open>
  Claim C4. With cropping and \<open>softmax\<close> on, \<open>BCEDiceLoss.forward\<close> should return
  \<open>0.5 * bce + (1 - dice) / n\<close> for every batch. Line 101 adds a leading axis to the
  cropped prediction and none to the cropped target, and line 102 hands both to
  \<open>F.binary_cross_entropy\<close>, which refuses operands of different sizes: on every batch
  that is not empty and whose target has the rank of the prediction, the first pass
  of the loop raises \<open>ValueError\<close> and \<open>forward\<close> returns nothing.
\<close>

theorem softmax_branch_rejects_target_of_prediction_rank:
  assumes "self_crop self" and "self_softmax self"
    and "fst x = n # sx" and "0 < n" and "fst target = m # st" and "0 < m"
    and "length st = length sx"
    and "input_shape = [hs, ws]" and "hs \<noteq> []" and "ws \<noteq> []" and "weights \<noteq> []"
  shows "BCEDiceLoss_forward (torch_model bce bce_logits) uncropped self x target
           input_shape weights
         = Inl (ValueError ''Using a target size that is different to the input size'')"
proof -
  have size: "py_call (tensor_size (torch_model bce bce_logits) x) 0 = Inr (int n)"
    using assms(3) by (simp add: py_call_def tensor_size_def torch_model_def Let_def)
  have r: "[0..<n] = 0 # [1..<n]"
    using assms(4) by (simp add: upt_conv_Cons)
  have loop: "for_each [0..<n]
        (softmax_body (torch_model bce bce_logits) x target input_shape weights) (0, 0, 0, 0)
      = Inl (ValueError ''Using a target size that is different to the input size'')"
    unfolding r
    using softmax_body_size_mismatch [OF assms(3-11), of bce bce_logits "(0, 0, 0, 0)"]
    by simp
  show ?thesis
    using assms(1,2) size loop
    by (simp add: BCEDiceLoss_forward_def py_then_def)
qed

theorem softmax_branch_rejects_target_of_prediction_rank_witness:
  "BCEDiceLoss_forward (torch_model (\<lambda>a b w. 0) (\<lambda>a b w. 0)) (\<lambda>a b. Inr None)
     \<lparr>self_crop = True, self_crop_batch = False, self_softmax = True\<rparr>
     ([1, 1, 768, 1024], replicate (768 * 1024) 0)
     ([1, 1, 768, 1024], replicate (768 * 1024) 1)
     [[768], [1024]] [1]
   = Inl (ValueError ''Using a target size that is different to the input size'')"
  by (rule softmax_branch_rejects_target_of_prediction_rank
      [where n = 1 and sx = "[1, 768, 1024]" and m = 1 and st = "[1, 768, 1024]"
         and hs = "[768]" and ws = "[1024]"]) simp_all

text \<open>
  With a target that carries one axis more than the prediction, the same batch goes
  through the branch.
\<close>

lemma softmax_branch_returns_with_extra_axis:
  "\<exists>r. BCEDiceLoss_forward (torch_model bce bce_logits) uncropped
     \<lparr>self_crop = True, self_crop_batch = False, self_softmax = True\<rparr>
     ([1, 1, 768, 1024], replicate (768 * 1024) 0)
     ([1, 1, 1, 768, 1024], replicate (768 * 1024) 1)
     [[768], [1024]] [1]
   = Inr r"
proof -
  let ?T = "torch_model bce bce_logits"
  let ?x = "([1, 1, 768, 1024], replicate (768 * 1024) 0) :: shaped"
  let ?t = "([1, 1, 1, 768, 1024], replicate (768 * 1024) 1) :: shaped"
  let ?s = "[[768], [1024]] :: int list list"
  let ?b = "\<lambda>i. bce (snd (pred_crop ?T ?x ?s i)) (snd (target_crop ?T ?t ?s i))
                  (Some ([1] ! i))"
  have ps: "fst (pred_crop ?T ?x ?s 0) = [1, 1, 768, 1024]"
    by (simp add: pred_crop_def torch_model_def shaped_unsqueeze_def shaped_crop_def
        shaped_softmax_def shaped_index_def Let_def)
  have ts: "fst (target_crop ?T ?t ?s 0) = [1, 1, 768, 1024]"
    by (simp add: target_crop_def torch_model_def shaped_crop_def shaped_index_def Let_def)
  have pl: "length (tensor_row ?T (pred_crop ?T ?x ?s 0)) = 768 * 1024"
    by (simp add: pred_crop_def torch_model_def shaped_unsqueeze_def shaped_crop_def
        shaped_softmax_def shaped_index_def Let_def)
  have tl: "length (tensor_row ?T (target_crop ?T ?t ?s 0)) = 768 * 1024"
    by (simp add: target_crop_def torch_model_def shaped_crop_def shaped_index_def Let_def)
  have h8: "F_binary_cross_entropy ?T (pred_crop ?T ?x ?s i) (target_crop ?T ?t ?s i)
      (Some ([1] ! i)) = Inr (?b i)" if "i < 1" for i
    using that ps ts by (simp add: torch_model_def shaped_bce_def)
  have h9: "length (tensor_row ?T (pred_crop ?T ?x ?s i))
      = length (tensor_row ?T (target_crop ?T ?t ?s i))" if "i < 1" for i
    using that pl tl by simp
  have loop: "\<exists>acc. for_each [0..<1] (softmax_body ?T ?x ?t ?s [1]) (0, 0, 0, 0) = Inr acc"
    using softmax_loop_value [of ?T ?x 1 "[1, 768, 1024]" ?t 1 "[1, 1, 768, 1024]" ?s "[1]" ?b 1]
      h8 h9
    by (simp add: torch_model_def)
  have size: "py_call (tensor_size ?T ?x) 0 = Inr 1"
    by (simp add: py_call_def tensor_size_def torch_model_def Let_def)
  obtain acc where acc: "for_each [0..<1] (softmax_body ?T ?x ?t ?s [1]) (0, 0, 0, 0) = Inr acc"
    using loop by blast
  obtain a b c d where "acc = (a, b, c, d)" by (cases acc) auto
  then show ?thesis
    using size acc
    by (simp add: BCEDiceLoss_forward_def py_then_def dice_loss_def)
qed


text \<open>
  Claim C2. For every value of the \<open>--loss\<close> flag the orchestrator constructs
  \<open>BCEDiceLoss\<close> as the criterion, and should pass it \<open>softmax\<close>, the parameter that has
  no default. The construction of line 158 passes nothing: whatever the configuration,
  it raises the \<open>TypeError\<close> for the missing argument \<open>softmax\<close>.
\<close>

theorem main_criterion_missing_softmax:
  "main_criterion config = Inl (TypeError_missing [''softmax''])"
  by (simp add: main_criterion_def BCEDiceLoss_init_def BCEDiceLoss_init_params_def
      bind_args_def py_then_def)

lemma BCEDiceLoss_init_softmax:
  "BCEDiceLoss_init [sm] = Inr \<lparr>self_crop = True, self_crop_batch = False, self_softmax = sm\<rparr>"
  by (simp add: BCEDiceLoss_init_def BCEDiceLoss_init_params_def bind_args_def py_then_def
      arg_def)

text \<open>
  Claim C5. For a batch of two samples or more, \<open>_crop_batch\<close> should start from the
  crop of sample 0 and return in the first pass of its loop, with samples 0 and 1
  combined. Line 67 subscripts the method \<open>img.size\<close> instead of calling it: on every
  tensor and every shape list the function raises a \<open>TypeError\<close> before any crop.
\<close>

theorem crop_batch_not_subscriptable:
  "BCEDiceLoss_crop_batch T img input_shape = Inl TypeError_not_subscriptable"
  by (simp add: BCEDiceLoss_crop_batch_def tensor_size_def py_subscript_def py_then_def)

text \<open>
  What lines 68 to 80 do once a batch size \<open>n\<close> of two or more is at hand: the loop
  returns in its first pass, with the crops of samples 0 and 1 and nothing else.
\<close>

lemma crop_batch_from_two_samples:
  assumes "2 \<le> n" and "tensor_shape T img = d # sh" and "2 \<le> d"
    and "input_shape = [hs, ws]" and "2 \<le> length hs" and "2 \<le> length ws"
  shows "crop_batch_from T img input_shape n =
     Inr (Some (torch_cat T
       (BCEDiceLoss_crop_single (transF_crop T) (tensor_index T img 0) (hs ! 0, ws ! 0))
       (BCEDiceLoss_crop_single (transF_crop T) (tensor_index T img 1) (hs ! 1, ws ! 1))))"
proof -
  have r: "[Suc 0..<nat n] = Suc 0 # [Suc (Suc 0)..<nat n]"
    using assms(1) by (simp add: upt_conv_Cons)
  have ne: "hs \<noteq> []" "ws \<noteq> []"
    using assms(5,6) by auto
  show ?thesis
    using assms ne
    by (simp add: crop_batch_from_def crop_batch_loop_def r py_then_def py_index_def
        tensor_getitem_def BCEDiceLoss_crop_single_def Let_def)
qed

lemma crop_batch_from_one_sample:
  assumes "n \<le> 1" and "tensor_shape T img = d # sh" and "1 \<le> d"
    and "input_shape = [hs, ws]" and "1 \<le> length hs" and "1 \<le> length ws"
  shows "crop_batch_from T img input_shape n = Inr None"
proof -
  have ne: "hs \<noteq> []" "ws \<noteq> []"
    using assms(5,6) by auto
  show ?thesis
    using assms ne
    by (simp add: crop_batch_from_def crop_batch_loop_def py_then_def py_index_def
        tensor_getitem_def Let_def)
qed

text \<open>
  Claim C8, as stated: every \<open>forward\<close> of the library takes four arguments, and the
  call of the loops, with three, fails on the missing \<open>weights\<close>. It does not hold of
  \<open>LovaszHingeLoss\<close>, whose \<open>forward\<close> takes two arguments and has no \<open>weights\<close>: three
  arguments are one too many for it.
\<close>

theorem lovasz_forward_two_params:
  "length (forward_params LovaszHingeLoss :: (string \<times> nat option) list) \<noteq> 4
   \<and> criterion_call (\<lambda>c env. Inr 0) LovaszHingeLoss [0 :: nat, 1, 2]
       = Inl (TypeError_too_many 2 3)
   \<and> criterion_call (\<lambda>c env. Inr 0) LovaszHingeLoss [0 :: nat, 1, 2]
       \<noteq> Inl (TypeError_missing [''weights''])"
  by (simp add: forward_params_def criterion_call_def bind_args_def py_then_def)

text \<open>
  Claim C8, amended. \<open>BCELoss.forward\<close> and \<open>BCEDiceLoss.forward\<close> take four arguments,
  the last of them \<open>weights\<close>; \<open>LovaszHingeLoss.forward\<close> takes two. The training and
  the validation loop call the criterion with three arguments, so under every
  criterion of the library the call raises a \<open>TypeError\<close> when the arguments are
  bound, whatever \<open>forward\<close> would compute: the missing \<open>weights\<close> for \<open>BCELoss\<close> and
  \<open>BCEDiceLoss\<close>, one argument too many for \<open>LovaszHingeLoss\<close>. The loss of a batch is
  this error in both loops, unless deep supervision is on and the network returned no
  output, where no call is made and the average divides by zero.
\<close>

theorem criterion_three_arguments_type_error:
  assumes "config ''deep_supervision'' = Some deep"
    and "err = (case c of LovaszHingeLoss \<Rightarrow> TypeError_too_many 2 3
                | BCELoss \<Rightarrow> TypeError_missing [''weights'']
                | BCEDiceLoss \<Rightarrow> TypeError_missing [''weights''])"
  shows "criterion_call body c [output, target, input_shape] = Inl err
       \<and> train_batch_loss (criterion_call body c) iou_score config outputs output target input_shape
           = (if truthy deep \<and> outputs = [] then Inl ZeroDivisionError else Inl err)
       \<and> validate_batch_loss (criterion_call body c) iou_score config outputs output target input_shape
           = (if truthy deep \<and> outputs = [] then Inl ZeroDivisionError else Inl err)"
proof -
  have call: "\<And>a b d. criterion_call body c [a, b, d] = Inl err"
    using assms(2)
    by (cases c) (simp_all add: criterion_call_def forward_params_def bind_args_def py_then_def)
  have loop: "outputs \<noteq> [] \<Longrightarrow>
      for_each outputs (\<lambda>output loss. py_then (criterion_call body c [output, target, input_shape])
                                     (\<lambda>l. Inr (loss + l))) 0 = Inl err"
    by (cases outputs) (simp_all add: call py_then_def)
  show ?thesis
    using assms(1) call loop
    by (simp add: train_batch_loss_def validate_batch_loss_def dict_get_def py_then_def)
qed

theorem criterion_three_arguments_type_error_witness:
  "train_batch_loss (criterion_call (\<lambda>c env. Inr 0) BCEDiceLoss) (\<lambda>a b d. Inr 1)
       [''deep_supervision'' \<mapsto> VBool False] [] (0 :: nat) 1 2
     = Inl (TypeError_missing [''weights''])
   \<and> validate_batch_loss (criterion_call (\<lambda>c env. Inr 0) LovaszHingeLoss) (\<lambda>a b d. Inr 1)
       [''deep_supervision'' \<mapsto> VBool True] [5, 6] (0 :: nat) 1 2
     = Inl (TypeError_too_many 2 3)"
  using criterion_three_arguments_type_error
      [of "[''deep_supervision'' \<mapsto> VBool False]" "VBool False"
          "TypeError_missing [''weights'']" BCEDiceLoss "\<lambda>c env. Inr 0" "0 :: nat" 1 2
          "\<lambda>a b d. Inr 1" "[]"]
    criterion_three_arguments_type_error
      [of "[''deep_supervision'' \<mapsto> VBool True]" "VBool True"
          "TypeError_too_many 2 3" LovaszHingeLoss "\<lambda>c env. Inr 0" "0 :: nat" 1 2
          "\<lambda>a b d. Inr 1" "[5, 6]"]
  by (simp add: truthy_def)

lemma parse_args_keys:
  assumes "parse_args MODEL_NAMES argv = Inr config"
  shows "dom config = set (map fst parser_defaults)"
proof -
  have ok: "list_all (\<lambda>(k, v). flag_accepts MODEL_NAMES k v) argv"
    and cfg: "config = map_of (rev argv @ parser_defaults)"
    using assms by (auto simp: parse_args_def split: if_splits)
  have "\<And>k v. (k, v) \<in> set argv \<Longrightarrow> k \<in> set (map fst parser_defaults)"
  proof -
    fix k v assume "(k, v) \<in> set argv"
    then have "flag_accepts MODEL_NAMES k v" using ok by (auto simp: list_all_iff)
    then show "k \<in> set (map fst parser_defaults)"
      by (simp add: flag_accepts_def parser_defaults_def split: if_splits)
  qed
  then have "fst ` set argv \<subseteq> set (map fst parser_defaults)" by auto
  then show ?thesis
    unfolding cfg by (auto simp: dom_map_of_conv_image_fst)
qed

lemma parse_args_model:
  assumes "parse_args MODEL_NAMES argv = Inr config"
  shows "\<exists>s. config ''model'' = Some (VStr s) \<and> s \<in> set (''UNetPP'' # MODEL_NAMES)"
proof -
  have ok: "list_all (\<lambda>(k, v). flag_accepts MODEL_NAMES k v) argv"
    and cfg: "config = map_of (rev argv @ parser_defaults)"
    using assms by (auto simp: parse_args_def split: if_splits)
  show ?thesis
  proof (cases "map_of (rev argv) ''model''")
    case None
    then show ?thesis unfolding cfg by (simp add: map_add_def parser_defaults_def)
  next
    case (Some v)
    then have "(''model'', v) \<in> set argv" using map_of_SomeD by fastforce
    then have "flag_accepts MODEL_NAMES ''model'' v" using ok by (auto simp: list_all_iff)
    then have "\<exists>s. v = VStr s \<and> s \<in> set MODEL_NAMES"
      by (auto simp: flag_accepts_def one_of_def split: cval.splits)
    then show ?thesis unfolding cfg using Some by (auto simp: map_add_def)
  qed
qed

lemma main_run_name_keys:
  assumes "main_run_name py_str now config0 = Inr config" and "k \<noteq> ''name''"
  shows "config k = config0 k"
  using assms
  by (auto simp: main_run_name_def py_then_def dict_get_def split: option.splits if_splits)

text \<open>
  Claim C10. For every architecture other than \<open>ARUNet\<close>, the construction of the
  network reads the key \<open>input_channels\<close> of the configuration, which no flag defines
  (the flag \<open>--input_channel_num\<close> stores its value under \<open>input_channel_num\<close>): on every
  command line that \<open>parse_args\<close> accepts, the lookup raises \<open>KeyError\<close>. Every name of
  \<open>model.__all__\<close>, and \<open>UNetPP\<close>, which line 17 imports, is defined in the module.
\<close>

theorem create_model_input_channels_key_error:
  assumes "parse_args MODEL_NAMES argv = Inr config0"
    and "main_run_name py_str now config0 = Inr config"
    and "config ''model'' \<noteq> Some (VStr ''ARUNet'')"
    and "list_all (\<lambda>name. model_dict name \<noteq> None) (''UNetPP'' # MODEL_NAMES)"
  shows "main_create_model model_dict config = Inl (KeyError (VStr ''input_channels''))
       \<and> config ''input_channels'' = None
       \<and> config ''input_channel_num'' \<noteq> None"
proof -
  have dom0: "dom config0 = set (map fst parser_defaults)"
    using assms(1) by (rule parse_args_keys)
  have "''input_channels'' \<notin> dom config0"
    unfolding dom0 by (simp add: parser_defaults_def)
  then have ic: "config ''input_channels'' = None"
    using main_run_name_keys [OF assms(2), of "''input_channels''"] by auto
  have "''input_channel_num'' \<in> dom config0" "''num_classes'' \<in> dom config0"
    unfolding dom0 by (simp_all add: parser_defaults_def)
  then have icn: "config ''input_channel_num'' \<noteq> None" and nc: "config ''num_classes'' \<noteq> None"
    using main_run_name_keys [OF assms(2), of "''input_channel_num''"]
      main_run_name_keys [OF assms(2), of "''num_classes''"] by auto
  obtain s where s: "config0 ''model'' = Some (VStr s)" "s \<in> set (''UNetPP'' # MODEL_NAMES)"
    using parse_args_model [OF assms(1)] by blast
  have m: "config ''model'' = Some (VStr s)"
    using s(1) main_run_name_keys [OF assms(2), of "''model''"] by simp
  have "model_dict s \<noteq> None"
    using assms(4) s(2) unfolding list_all_iff by blast
  then obtain ctor where ctor: "model_dict s = Some ctor" by blast
  obtain n where n: "config ''num_classes'' = Some n" using nc by blast
  have "s \<noteq> ''ARUNet''" using assms(3) m by auto
  then have "main_create_model model_dict config = Inl (KeyError (VStr ''input_channels''))"
    by (simp add: main_create_model_def py_then_def dict_get_def module_get_def m ctor n ic)
  then show ?thesis using ic icn by simp
qed

theorem create_model_input_channels_key_error_witness:
  "parse_args [''UNet'', ''UNetPP'', ''ARUNet''] [(''model'', VStr ''UNet'')]
     = Inr (map_of ([(''model'', VStr ''UNet'')] @ parser_defaults))
   \<and> main_create_model (\<lambda>name. Some (\<lambda>args. Inr name))
        ((map_of ([(''model'', VStr ''UNet'')] @ parser_defaults))
           (''name'' \<mapsto> VStr (''UNet'' @ ''_'' @ ''Wed Nov  4 10:07:00 2026'' @ ''_normal'')))
     = Inl (KeyError (VStr ''input_channels''))"
proof -
  let ?str = "\<lambda>v. case v of VStr s \<Rightarrow> s | _ \<Rightarrow> []"
  let ?parsed = "map_of ([(''model'', VStr ''UNet'')] @ parser_defaults)"
  let ?named = "?parsed(''name'' \<mapsto> VStr (''UNet'' @ ''_'' @ ''Wed Nov  4 10:07:00 2026'' @ ''_normal''))"
  have p: "parse_args [''UNet'', ''UNetPP'', ''ARUNet''] [(''model'', VStr ''UNet'')] = Inr ?parsed"
    by (simp add: parse_args_def flag_accepts_def one_of_def)
  have r: "main_run_name ?str ''Wed Nov  4 10:07:00 2026'' ?parsed = Inr ?named"
    by (simp add: main_run_name_def py_then_def dict_get_def parser_defaults_def truthy_def)
  have m: "?named ''model'' \<noteq> Some (VStr ''ARUNet'')"
    by simp
  have d: "list_all (\<lambda>name. (\<lambda>name. Some (\<lambda>args. Inr name)) name \<noteq> None)
             (''UNetPP'' # [''UNet'', ''UNetPP'', ''ARUNet''])"
    by simp
  have c: "main_create_model (\<lambda>name. Some (\<lambda>args. Inr name)) ?named
      = Inl (KeyError (VStr ''input_channels''))"
    by (rule create_model_input_channels_key_error [OF p r m d, THEN conjunct1])
  show ?thesis
    by (rule conjI [OF p c])
qed


lemma img_id_raises: "img_id p = Inl (AttributeError ''splittext'')"
  by (simp add: img_id_def os_path_getattr_def py_then_def)

lemma comprehension_img_id:
  "comprehension img_id ps = (if ps = [] then Inr [] else Inl (AttributeError ''splittext''))"
  by (cases ps) (simp_all add: img_id_raises)

text \<open>
  Claim C7. The identifiers of a split should be the stems of the files that
  \<open><dataset_root>/<split>/*/*\<close> matches, without duplicates: \<open>{p001, p002}\<close> for the
  three files of the example. Line 190 reads \<open>os.path.splittext\<close>, an attribute that
  \<open>os.path\<close> does not have (the function is \<open>splitext\<close>): on the example the discovery
  raises \<open>AttributeError\<close> and gives no identifier.
\<close>

theorem img_ids_attribute_error:
  "main_img_ids example_glob [''dataset'' \<mapsto> VStr ''data'']
     = Inl (AttributeError ''splittext'')"
  by (simp add: main_img_ids_def main_dirs_def dict_get_def py_then_def py_join_def
      example_glob_def comprehension_img_id)

lemma img_ids_nonempty_raise:
  assumes "config ''dataset'' = Some (VStr dataset)"
    and "glob (py_join dataset [''train'', ''*'', ''*'']) \<noteq> []"
  shows "main_img_ids glob config = Inl (AttributeError ''splittext'')"
  using assms
  by (simp add: main_img_ids_def main_dirs_def dict_get_def py_then_def comprehension_img_id)

lemma img_ids_empty:
  assumes "config ''dataset'' = Some (VStr dataset)"
    and "glob (py_join dataset [''train'', ''*'', ''*'']) = []"
    and "glob (py_join dataset [''validation'', ''*'', ''*'']) = []"
  shows "main_img_ids glob config = Inr ({}, {})"
  using assms
  by (simp add: main_img_ids_def main_dirs_def dict_get_def py_then_def)

text \<open>
  Claim C9, as stated: with the loader bound to \<open>net\<close> and the network to the loader
  parameter, the loops call \<open>.train()\<close> on the data loader and then iterate over the
  network. No iteration takes place: a data loader has no method \<open>train\<close>, and line 73
  raises \<open>AttributeError\<close> before the loop.
\<close>

theorem train_raises_before_iterating:
  "train [DataLoaderObj [0, 1 :: nat], ModuleObj, OtherObj, OtherObj, OtherObj]
     (\<lambda>env batches. Inr (length batches))
   = Inl (AttributeError ''train'')"
  by (simp add: train_def train_params_def bind_args_def py_then_def arg_def call_method_def)

text \<open>With the network first and the loader second the loop receives the batches.\<close>

lemma train_network_first:
  "train [ModuleObj, DataLoaderObj [0, 1 :: nat], OtherObj, OtherObj, OtherObj]
     (\<lambda>env batches. Inr (length batches))
   = Inr 2"
  by (simp add: train_def train_params_def bind_args_def py_then_def arg_def call_method_def
      py_len_def py_iter_def)

text \<open>
  Claim C9, amended. \<open>main\<close> calls \<open>train(train_loader, net, criterion, optimizer,
  config)\<close> and \<open>validate(valid_loader, net, criterion, config)\<close>, and both definitions
  take the network first and the loader second: the calls bind the data loader to
  \<open>net\<close> and the network to the loader parameter. \<open>train\<close> then calls \<open>.train()\<close> on a
  data loader, which has no such method, and raises \<open>AttributeError\<close> at line 73,
  before the length and the \<open>for\<close> loop reach the network; \<open>validate\<close> called with its
  arguments raises the same way at \<open>.eval()\<close> (line 112), and in an epoch of \<open>main\<close> it is
  not reached, since the exception of \<open>train\<close> ends the epoch.
\<close>

theorem swapped_calls_raise_attribute_error:
  assumes "l_train_loader m = DataLoaderObj train_batches"
    and "l_valid_loader m = DataLoaderObj valid_batches"
  shows "main_train_call m =
     Inr [(''net'', l_train_loader m), (''train_loader'', l_net m),
          (''criterion'', l_criterion m), (''optimizer'', l_optimizer m),
          (''config'', l_config m)]
   \<and> main_validate_call m =
     Inr [(''net'', l_valid_loader m), (''valid_loader'', l_net m),
          (''criterion'', l_criterion m), (''config'', l_config m)]
   \<and> train [l_train_loader m, l_net m, l_criterion m, l_optimizer m, l_config m] train_loop
       = Inl (AttributeError ''train'')
   \<and> validate [l_valid_loader m, l_net m, l_criterion m, l_config m] validate_loop
       = Inl (AttributeError ''eval'')
   \<and> main_train_validate m train_loop validate_loop = Inl (AttributeError ''train'')"
proof -
  have t: "train [l_train_loader m, l_net m, l_criterion m, l_optimizer m, l_config m] train_loop
      = Inl (AttributeError ''train'')" for train_loop :: "(string \<times> 'a py_obj) list \<Rightarrow> 'a list \<Rightarrow> py_error + 'b"
    using assms(1)
    by (simp add: train_def train_params_def bind_args_def py_then_def arg_def call_method_def)
  have v: "validate [l_valid_loader m, l_net m, l_criterion m, l_config m] validate_loop
      = Inl (AttributeError ''eval'')"
    using assms(2)
    by (simp add: validate_def validate_params_def bind_args_def py_then_def arg_def
        call_method_def)
  have b: "main_train_call m =
     Inr [(''net'', l_train_loader m), (''train_loader'', l_net m),
          (''criterion'', l_criterion m), (''optimizer'', l_optimizer m),
          (''config'', l_config m)]"
    by (simp add: main_train_call_def train_params_def bind_args_def)
  have c: "main_validate_call m =
     Inr [(''net'', l_valid_loader m), (''valid_loader'', l_net m),
          (''criterion'', l_criterion m), (''config'', l_config m)]"
    by (simp add: main_validate_call_def validate_params_def bind_args_def)
  show ?thesis
    using t v b c by (simp add: main_train_validate_def py_then_def)
qed

theorem swapped_calls_raise_attribute_error_witness:
  "main_train_validate
     \<lparr>l_train_loader = DataLoaderObj [0, 1 :: nat], l_valid_loader = DataLoaderObj [2],
      l_net = ModuleObj, l_criterion = OtherObj, l_optimizer = OtherObj, l_config = OtherObj\<rparr>
     (\<lambda>env batches. Inr (length batches)) (\<lambda>env batches. Inr (length batches))
   = Inl (AttributeError ''train'')"
  by (rule swapped_calls_raise_attribute_error
      [where train_batches = "[0, 1]" and valid_batches = "[2]",
        THEN conjunct2, THEN conjunct2, THEN conjunct2, THEN conjunct2]) simp_all


lemma main_epochs_raise:
  "main_epoch config (state_dict epoch) epoch (fst (results epoch)) (snd (results epoch)) s
     = (Inl e, s') \<Longrightarrow>
   main_epochs config state_dict results (epoch # rest) s = (Inl e, s')"
  by simp

lemma first_epoch_raises:
  assumes "ious \<noteq> []"
  shows "main_epoch (run_config n k) (Inr p) 0
        (fst (run_results ious 0)) (snd (run_results ious 0)) initial_state
      = (Inl (KeyError (VStr ''val_loss'')),
         initial_state\<lparr>log := [(''epoch'', [VInt 0]), (''loss'', [VFloat 1]),
           (''lr'', [VFloat (1 / 1000)]), (''iou'', [VFloat (ious ! 0)]),
           (''valid_loss'', []), (''valid_accuracy'', [])]\<rparr>)"
  by (simp add: main_epoch_def run_config_def run_results_def seq_def expr_def assign_def
      dict_get_def initial_state_def log_append_def float_of_def py_then_def)

lemma example_run_raises:
  assumes "0 < n" and "ious \<noteq> []"
  shows "main_loop (run_config n k) (\<lambda>epoch. Inr epoch) (run_results ious)
      = (Inl (KeyError (VStr ''val_loss'')),
         initial_state\<lparr>log := [(''epoch'', [VInt 0]), (''loss'', [VFloat 1]),
           (''lr'', [VFloat (1 / 1000)]), (''iou'', [VFloat (ious ! 0)]),
           (''valid_loss'', []), (''valid_accuracy'', [])]\<rparr>)"
proof -
  have r: "[0..<nat n] = 0 # [1..<nat n]"
    using assms(1) by (simp add: upt_conv_Cons)
  have l: "main_loop (run_config n k) (\<lambda>epoch. Inr epoch) (run_results ious)
      = main_epochs (run_config n k) (\<lambda>epoch. Inr epoch) (run_results ious)
          (0 # [1..<nat n]) initial_state"
    unfolding main_loop_def r [symmetric] by (simp add: dict_get_def run_config_def)
  show ?thesis
    unfolding l
    by (rule main_epochs_raise) (rule first_epoch_raises [OF assms(2)])
qed

text \<open>
  Claim C1. The checkpoint \<open>models/<name>/model.pth\<close> should be written exactly when
  the validation IoU of an epoch exceeds the best value so far. In a run of five
  epochs with the validation IoUs 0.1, 0.3, 0.2, 0.5, 0.4, where \<open>train\<close> and
  \<open>validate\<close> return every key the loop reads, the first epoch improves on the
  initial best value, and yet no checkpoint is written: line 258 appends to
  \<open>log['val_loss']\<close>, a key that the dictionary of line 231 does not have, and the run
  ends there with \<open>KeyError\<close>.
\<close>

theorem no_checkpoint_on_improvement:
  "fst (main_loop (run_config 5 (- 1)) (\<lambda>epoch. Inr epoch) (run_results improving_ious))
     = Inl (KeyError (VStr ''val_loss''))
   \<and> model_pth (snd (main_loop (run_config 5 (- 1)) (\<lambda>epoch. Inr epoch)
         (run_results improving_ious))) = None
   \<and> pth_writes (snd (main_loop (run_config 5 (- 1)) (\<lambda>epoch. Inr epoch)
         (run_results improving_ious))) = []
   \<and> best_iou (snd (main_loop (run_config 5 (- 1)) (\<lambda>epoch. Inr epoch)
         (run_results improving_ious)) :: nat run_state) < improving_ious ! 0"
proof -
  have "improving_ious \<noteq> []" by (simp add: improving_ious_def)
  then show ?thesis
    by (simp add: example_run_raises initial_state_def) (simp add: improving_ious_def)
qed

text \<open>
  Claim C6. With \<open>early_stopping = 2\<close> and the validation IoUs 0.5, 0.4, 0.3 the loop
  should process and log exactly three epochs. The run ends in its first epoch with
  the \<open>KeyError\<close> of line 258: the log file is never written, the counter \<open>trigger\<close>
  is never incremented, and the log in memory holds the four values appended before
  the exception.
\<close>

theorem early_stopping_run_logs_nothing:
  "fst (main_loop (run_config 3 2) (\<lambda>epoch. Inr epoch) (run_results declining_ious))
     = Inl (KeyError (VStr ''val_loss''))
   \<and> csv_writes (snd (main_loop (run_config 3 2) (\<lambda>epoch. Inr epoch)
         (run_results declining_ious))) = 0
   \<and> log_csv (snd (main_loop (run_config 3 2) (\<lambda>epoch. Inr epoch)
         (run_results declining_ious))) = None
   \<and> trigger (snd (main_loop (run_config 3 2) (\<lambda>epoch. Inr epoch)
         (run_results declining_ious))) = 0
   \<and> log (snd (main_loop (run_config 3 2) (\<lambda>epoch. Inr epoch)
         (run_results declining_ious)) :: nat run_state)
       = [(''epoch'', [VInt 0]), (''loss'', [VFloat 1]), (''lr'', [VFloat (1 / 1000)]),
          (''iou'', [VFloat (5 / 10)]), (''valid_loss'', []), (''valid_accuracy'', [])]"
proof -
  have "declining_ious \<noteq> []" by (simp add: declining_ious_def)
  then show ?thesis
    by (simp add: example_run_raises initial_state_def) (simp add: declining_ious_def)
qed

text \<open>
  Lines 263 to 274 taken alone, from a state that an epoch would have reached: the
  counter is incremented, then reset on a strict improvement, which also writes the
  checkpoint and raises the best value; the loop breaks when the threshold is not
  negative and the counter has reached it. The best value never decreases.
\<close>

lemma bookkeeping_value:
  assumes "val_log ''iou'' = Some v" and "config ''name'' = Some name"
    and "config ''early_stopping'' = Some (VInt k)"
  shows "bookkeeping config (Inr sd) epoch val_log s =
     (if best_iou s < v
      then (Inr (if 0 \<le> k \<and> k \<le> 0 then Break else Continue),
            s\<lparr>trigger := 0, model_pth := Some sd, pth_writes := pth_writes s @ [epoch],
              best_iou := v\<rparr>)
      else (Inr (if 0 \<le> k \<and> k \<le> trigger s + 1 then Break else Continue),
            s\<lparr>trigger := trigger s + 1\<rparr>))"
  using assms
  by (simp add: bookkeeping_def seq_def expr_def assign_def dict_get_def num_of_def)

lemma bookkeeping_best_iou_mono:
  "best_iou s \<le> best_iou (snd (bookkeeping config state_dict epoch val_log s))"
  by (auto simp: bookkeeping_def seq_def expr_def assign_def dict_get_def
      split: sum.splits option.splits prod.splits if_splits)


text \<open>
  No pass of the loop body completes, whatever \<open>train\<close> and \<open>validate\<close> return: the
  dictionary of line 231 never gets the key \<open>val_loss\<close>. So no run writes a checkpoint
  or a log file.
\<close>

lemma log_append_keys:
  "map_of (map (\<lambda>(k', c). if k' = k then (k', c @ [x]) else (k', c)) columns) j = None
     \<longleftrightarrow> map_of columns j = None"
proof -
  have "map fst (map (\<lambda>(k', c). if k' = k then (k', c @ [x]) else (k', c)) columns)
      = map fst columns"
    by (induction columns) (auto split: prod.splits)
  then have "fst ` set (map (\<lambda>(k', c). if k' = k then (k', c @ [x]) else (k', c)) columns)
      = fst ` set columns"
    by (metis set_map)
  then show ?thesis
    by (simp only: map_of_eq_None_iff)
qed

lemma log_append_step:
  assumes "map_of (log s) ''val_loss'' = None" and "log_append k v s = (r, s')"
  shows "map_of (log s') ''val_loss'' = None \<and> model_pth s' = model_pth s
       \<and> pth_writes s' = pth_writes s \<and> csv_writes s' = csv_writes s
       \<and> log_csv s' = log_csv s \<and> best_iou s' = best_iou s \<and> trigger s' = trigger s"
  using assms
  by (auto simp: log_append_def seq_def expr_def assign_def dict_get_def log_append_keys
      split: sum.splits option.splits)

lemma main_epoch_never_completes:
  assumes "map_of (log s) ''val_loss'' = None"
  shows "(\<exists>e. fst (main_epoch config state_dict epoch train_result validate_result s) = Inl e)
       \<and> model_pth (snd (main_epoch config state_dict epoch train_result validate_result s))
           = model_pth s
       \<and> csv_writes (snd (main_epoch config state_dict epoch train_result validate_result s))
           = csv_writes s"
proof -
  define A where "A = (\<lambda>s' :: 'a run_state. map_of (log s') ''val_loss'' = None
       \<and> model_pth s' = model_pth s \<and> csv_writes s' = csv_writes s)"
  define P where "P = (\<lambda>r :: (py_error + flow) \<times> 'a run_state.
       (\<exists>e. fst r = Inl e) \<and> A (snd r))"
  have A0: "A s" using assms by (simp add: A_def)
  have app: "P (seq (log_append k v) f t)" if "A t" and "\<And>t'. A t' \<Longrightarrow> P (f () t')"
    for k v and f :: "unit \<Rightarrow> ('a, flow) stmt" and t
  proof -
    obtain r t' where rt: "log_append k v t = (r, t')" by (cases "log_append k v t")
    have At': "A t'"
      using log_append_step [OF _ rt] that(1) by (simp add: A_def)
    show ?thesis
      using rt At' that(2) [OF At'] by (cases r) (simp_all add: seq_def P_def)
  qed
  have ex: "P (seq (expr m) f t)" if "A t" and "\<And>a. P (f a t)"
    for m :: "py_error + 'b" and f :: "'b \<Rightarrow> ('a, flow) stmt" and t
    using that by (cases m) (simp_all add: seq_def expr_def P_def)
  have last: "P (seq (log_append ''val_loss'' v) f t)" if "A t"
    for v and f :: "unit \<Rightarrow> ('a, flow) stmt" and t
    using that by (simp add: A_def P_def log_append_def seq_def expr_def dict_get_def)
  have keep: "P (seq m f t)" if "A t" and "snd (m t) = t" and "\<And>a. P (f a t)"
    for m :: "('a, unit) stmt" and f :: "unit \<Rightarrow> ('a, flow) stmt" and t
  proof (cases "m t")
    case (Pair r t')
    then have "t' = t" using that(2) by simp
    then show ?thesis
      using Pair that(1) that(3) by (cases r) (simp_all add: seq_def P_def)
  qed
  have "P (main_epoch config state_dict epoch train_result validate_result s)"
    unfolding main_epoch_def
    apply (intro ex A0)
    apply (rule keep)
      apply (rule A0)
     apply (simp add: seq_def expr_def split: sum.splits)
    apply (intro ex A0)
    apply (rule app, rule A0)
    apply (rule app, assumption)
    apply (rule app, assumption)
    apply (rule app, assumption)
    apply (rule last, assumption)
    done
  then show ?thesis by (simp add: P_def A_def)
qed

text \<open>
  On a configuration that comes from \<open>parse_args\<close> the two phases end earlier still:
  no flag defines \<open>dataset\<close> or \<open>epochs\<close>.
\<close>

lemma img_ids_parsed_config:
  assumes "parse_args MODEL_NAMES argv = Inr config0"
    and "main_run_name py_str now config0 = Inr config"
  shows "main_img_ids glob config = Inl (KeyError (VStr ''dataset''))"
proof -
  have "''dataset'' \<notin> dom config0"
    unfolding parse_args_keys [OF assms(1)] by (simp add: parser_defaults_def)
  then have "config ''dataset'' = None"
    using main_run_name_keys [OF assms(2), of "''dataset''"] by auto
  then show ?thesis
    by (simp add: main_img_ids_def main_dirs_def dict_get_def py_then_def)
qed

lemma main_loop_parsed_config:
  assumes "parse_args MODEL_NAMES argv = Inr config0"
    and "main_run_name py_str now config0 = Inr config"
  shows "main_loop config state_dict results = (Inl (KeyError (VStr ''epochs'')), initial_state)"
proof -
  have "''epochs'' \<notin> dom config0"
    unfolding parse_args_keys [OF assms(1)] by (simp add: parser_defaults_def)
  then have "config ''epochs'' = None"
    using main_run_name_keys [OF assms(2), of "''epochs''"] by auto
  then show ?thesis
    by (simp add: main_loop_def dict_get_def)
qed

lemma main_loop_writes_nothing:
  "model_pth (snd (main_loop config state_dict results)) = None
   \<and> csv_writes (snd (main_loop config state_dict results)) = 0"
proof -
  have init: "map_of (log (initial_state :: 'a run_state)) ''val_loss'' = None"
    by (simp add: initial_state_def)
  have epochs: "model_pth (snd (main_epochs config state_dict results es initial_state)) = None
      \<and> csv_writes (snd (main_epochs config state_dict results es initial_state)) = 0"
    for es and state_dict :: "nat \<Rightarrow> py_error + 'a"
  proof (cases es)
    case Nil
    then show ?thesis by (simp add: initial_state_def)
  next
    case (Cons epoch rest)
    obtain r s' where rs: "main_epoch config (state_dict epoch) epoch (fst (results epoch))
        (snd (results epoch)) initial_state = (r, s')"
      by (cases "main_epoch config (state_dict epoch) epoch (fst (results epoch))
        (snd (results epoch)) (initial_state :: 'a run_state)")
    have "(\<exists>e. r = Inl e) \<and> model_pth s' = None \<and> csv_writes s' = 0"
      using main_epoch_never_completes [OF init, of config "state_dict epoch" epoch
          "fst (results epoch)" "snd (results epoch)"] rs
      by (simp add: initial_state_def)
    then show ?thesis using Cons rs by auto
  qed
  show ?thesis
    using epochs
    by (simp add: main_loop_def initial_state_def split: sum.splits cval.splits)
qed


end
